theory Spec2Isabelle
  imports Main "HOL-Library.Word"
begin

section \<open>Go values the role and role-mapping endpoints work on\<close>

text \<open>
  \<^verbatim>\<open>time.Duration\<close> is an \<^verbatim>\<open>int64\<close>; the endpoints only compare it with zero and hand it
  to \<^verbatim>\<open>formatDuration\<close>. An \<^verbatim>\<open>io.Reader\<close> is the bytes it yields, \<^verbatim>\<open>nil\<close> is \<open>None\<close>.
  A \<^verbatim>\<open>context.Context\<close> is a handle, \<^verbatim>\<open>nil\<close> is \<open>None\<close>. A Go \<^verbatim>\<open>error\<close> is a value
  that is only passed on.
\<close>

type_synonym Duration = "64 word"
type_synonym Reader = string
type_synonym Context = nat

datatype error = Error string

subsection \<open>\<^verbatim>\<open>strings.Builder\<close> and \<^verbatim>\<open>strings.Join\<close>\<close>

text \<open>The builder is the bytes written so far; \<^verbatim>\<open>Grow\<close> reserves capacity and writes nothing.\<close>

type_synonym Builder = string

definition Builder_zero :: Builder where
  "Builder_zero = []"

definition Grow :: "Builder \<Rightarrow> nat \<Rightarrow> Builder" where
  "Grow b n = b"

definition WriteString :: "Builder \<Rightarrow> string \<Rightarrow> Builder" where
  "WriteString b s = b @ s"

definition String :: "Builder \<Rightarrow> string" where
  "String b = b"

fun Join :: "string list \<Rightarrow> string \<Rightarrow> string" where
  "Join [] sep = []"
| "Join [x] sep = x"
| "Join (x # y # ys) sep = x @ sep @ Join (y # ys) sep"

subsection \<open>\<^verbatim>\<open>http.Header\<close>\<close>

text \<open>
  \<^verbatim>\<open>http.Header\<close> is \<^verbatim>\<open>map[string][]string\<close>. The endpoints range over header maps, so a
  header map is the list of its entries in the order a \<^verbatim>\<open>range\<close> loop visits them; a key
  is looked up by its first entry.

  \<^verbatim>\<open>Header.Add\<close> and \<^verbatim>\<open>Header.Set\<close> work on the canonical form of the key
  (\<^verbatim>\<open>textproto.CanonicalMIMEHeaderKey\<close>): a key made of header token bytes only gets an
  upper-case letter first and after every hyphen and lower-case letters elsewhere; any
  other key is left as it is.
\<close>

type_synonym Header = "(string \<times> string list) list"

definition validHeaderFieldByte :: "char \<Rightarrow> bool" where
  "validHeaderFieldByte c =
     (let n = (of_char c :: nat) in
        (48 \<le> n \<and> n \<le> 57) \<or> (65 \<le> n \<and> n \<le> 90) \<or> (97 \<le> n \<and> n \<le> 122) \<or>
        n \<in> {33, 35, 36, 37, 38, 39, 42, 43, 45, 46, 94, 95, 96, 124, 126})"

definition canonByte :: "bool \<Rightarrow> char \<Rightarrow> char" where
  "canonByte upper c =
     (let n = (of_char c :: nat) in
        if upper \<and> 97 \<le> n \<and> n \<le> 122 then char_of (n - 32)
        else if \<not> upper \<and> 65 \<le> n \<and> n \<le> 90 then char_of (n + 32)
        else c)"

fun canonicalBytes :: "bool \<Rightarrow> string \<Rightarrow> string" where
  "canonicalBytes upper [] = []"
| "canonicalBytes upper (c # cs) =
     canonByte upper c # canonicalBytes (canonByte upper c = CHR ''-'') cs"

definition CanonicalMIMEHeaderKey :: "string \<Rightarrow> string" where
  "CanonicalMIMEHeaderKey s =
     (if list_all validHeaderFieldByte s then canonicalBytes True s else s)"

text \<open>\<^verbatim>\<open>h[key] = append(h[key], value)\<close>\<close>

fun Header_append :: "Header \<Rightarrow> string \<Rightarrow> string \<Rightarrow> Header" where
  "Header_append [] key v = [(key, [v])]"
| "Header_append ((k, vs) # h) key v =
     (if k = key then (k, vs @ [v]) # h else (k, vs) # Header_append h key v)"

text \<open>\<^verbatim>\<open>h[key] = vs\<close>\<close>

fun Header_assign :: "Header \<Rightarrow> string \<Rightarrow> string list \<Rightarrow> Header" where
  "Header_assign [] key ws = [(key, ws)]"
| "Header_assign ((k, vs) # h) key ws =
     (if k = key then (k, ws) # h else (k, vs) # Header_assign h key ws)"

definition Header_Add :: "Header \<Rightarrow> string \<Rightarrow> string \<Rightarrow> Header" where
  "Header_Add h key v = Header_append h (CanonicalMIMEHeaderKey key) v"

definition Header_Set :: "Header \<Rightarrow> string \<Rightarrow> string \<Rightarrow> Header" where
  "Header_Set h key v = Header_assign h (CanonicalMIMEHeaderKey key) [v]"

definition Header_lookup :: "Header \<Rightarrow> string \<Rightarrow> string list option" where
  "Header_lookup h key = map_of h key"

subsection \<open>\<^verbatim>\<open>url.Values\<close>, requests and responses\<close>

text \<open>
  \<^verbatim>\<open>url.Values\<close> is \<^verbatim>\<open>map[string][]string\<close>; the endpoints only \<^verbatim>\<open>Set\<close> keys in it, so it
  is a map. A request as the transport receives it: method, URL (path, raw query and
  \<^verbatim>\<open>ForceQuery\<close>, which writes a \<^verbatim>\<open>?\<close> after the path even when the raw query is empty), body,
  header map (allocated, never \<^verbatim>\<open>nil\<close>) and the bound context.
\<close>

type_synonym Values = "string \<rightharpoonup> string list"

definition Values_Set :: "Values \<Rightarrow> string \<Rightarrow> string \<Rightarrow> Values" where
  "Values_Set q key v = q(key \<mapsto> [v])"

record url_URL =
  Path :: string
  RawQuery :: string
  ForceQuery :: bool

record http_Request =
  Method :: string
  URL :: url_URL
  Body :: "Reader option"
  Header :: Header
  ctx :: "Context option"

record http_Response =
  StatusCode :: int
  Body :: "Reader option"
  Header :: Header

text \<open>\<^verbatim>\<open>Response\<close> of package \<^verbatim>\<open>opensearchapi\<close>, as \<^verbatim>\<open>Do\<close> fills it.\<close>

record Response =
  StatusCode :: int
  Body :: "Reader option"
  Header :: Header

text \<open>
  \<^verbatim>\<open>Transport\<close> is an interface of the package with the one method \<^verbatim>\<open>Perform\<close>. The caller
  supplies it; it may do anything to the world \<open>'w\<close> and returns a response or an error.
\<close>

type_synonym 'w Transport = "http_Request \<Rightarrow> 'w \<Rightarrow> (error + http_Response) \<times> 'w"

text \<open>
  What the operations use and these files of the package do not declare: the package's
  \<^verbatim>\<open>formatDuration\<close>, \<^verbatim>\<open>newRequest\<close>, \<^verbatim>\<open>headerContentType\<close> and \<^verbatim>\<open>headerContentTypeJSON\<close>, and
  the codec of \<^verbatim>\<open>net/url\<close> (\<^verbatim>\<open>URL.Query\<close> parses the raw query, \<^verbatim>\<open>Values.Encode\<close> writes it).
  They are parameters of every operation below.
\<close>

record package =
  formatDuration :: "Duration \<Rightarrow> string"
  newRequest :: "string \<Rightarrow> string \<Rightarrow> Reader option \<Rightarrow> error + http_Request"
  headerContentType :: string
  headerContentTypeJSON :: "string list"
  url_Query :: "string \<Rightarrow> Values"
  Values_Encode :: "Values \<Rightarrow> string"

section \<open>The request configuration and its options\<close>

text \<open>
  \<^verbatim>\<open>RoleCreateRequest\<close>, \<^verbatim>\<open>RoleMappingCreateRequest\<close>, \<^verbatim>\<open>RoleDeleteRequest\<close> and
  \<^verbatim>\<open>RoleMappingDeleteRequest\<close> declare the same fields with the same types.
\<close>

record RoleCreateRequest =
  Role :: string
  Body :: "Reader option"
  MasterTimeout :: Duration
  ClusterManagerTimeout :: Duration
  Timeout :: Duration
  WaitForActiveShards :: string
  Pretty :: bool
  Human :: bool
  ErrorTrace :: bool
  FilterPath :: "string list"
  Header :: "Header option"
  ctx :: "Context option"

type_synonym RoleMappingCreateRequest = RoleCreateRequest
type_synonym RoleDeleteRequest = RoleCreateRequest
type_synonym RoleMappingDeleteRequest = RoleCreateRequest

text \<open>The composite literal \<^verbatim>\<open>RoleCreateRequest{Role: role}\<close>: every other field is zero.\<close>

definition zeroRequest :: "string \<Rightarrow> RoleCreateRequest" where
  "zeroRequest role =
     \<lparr>Role = role, Body = None, MasterTimeout = 0, ClusterManagerTimeout = 0, Timeout = 0,
      WaitForActiveShards = [], Pretty = False, Human = False, ErrorTrace = False,
      FilterPath = [], Header = None, ctx = None\<rparr>"

text \<open>
  The option functions. Each of the four operations declares the same twelve, with the same
  bodies; in Go they write through a pointer, here they return the configuration.
\<close>

definition WithContext :: "Context option \<Rightarrow> RoleCreateRequest \<Rightarrow> RoleCreateRequest" where
  "WithContext v r = r\<lparr>RoleCreateRequest.ctx := v\<rparr>"

definition WithBody :: "Reader option \<Rightarrow> RoleCreateRequest \<Rightarrow> RoleCreateRequest" where
  "WithBody v r = r\<lparr>RoleCreateRequest.Body := v\<rparr>"

definition WithMasterTimeout :: "Duration \<Rightarrow> RoleCreateRequest \<Rightarrow> RoleCreateRequest" where
  "WithMasterTimeout v r = r\<lparr>MasterTimeout := v\<rparr>"

definition WithClusterManagerTimeout :: "Duration \<Rightarrow> RoleCreateRequest \<Rightarrow> RoleCreateRequest" where
  "WithClusterManagerTimeout v r = r\<lparr>ClusterManagerTimeout := v\<rparr>"

definition WithTimeout :: "Duration \<Rightarrow> RoleCreateRequest \<Rightarrow> RoleCreateRequest" where
  "WithTimeout v r = r\<lparr>Timeout := v\<rparr>"

definition WithWaitForActiveShards :: "string \<Rightarrow> RoleCreateRequest \<Rightarrow> RoleCreateRequest" where
  "WithWaitForActiveShards v r = r\<lparr>WaitForActiveShards := v\<rparr>"

definition WithPretty :: "RoleCreateRequest \<Rightarrow> RoleCreateRequest" where
  "WithPretty r = r\<lparr>Pretty := True\<rparr>"

definition WithHuman :: "RoleCreateRequest \<Rightarrow> RoleCreateRequest" where
  "WithHuman r = r\<lparr>Human := True\<rparr>"

definition WithErrorTrace :: "RoleCreateRequest \<Rightarrow> RoleCreateRequest" where
  "WithErrorTrace r = r\<lparr>ErrorTrace := True\<rparr>"

definition WithFilterPath :: "string list \<Rightarrow> RoleCreateRequest \<Rightarrow> RoleCreateRequest" where
  "WithFilterPath v r = r\<lparr>FilterPath := v\<rparr>"

text \<open>
  \<^verbatim>\<open>WithHeader\<close> takes a \<^verbatim>\<open>map[string]string\<close>: the list of its entries in the order the
  \<^verbatim>\<open>range\<close> loop visits them.
\<close>

definition entriesOf :: "Header option \<Rightarrow> Header" where
  "entriesOf h = (case h of None \<Rightarrow> [] | Some m \<Rightarrow> m)"

definition WithHeader :: "(string \<times> string) list \<Rightarrow> RoleCreateRequest \<Rightarrow> RoleCreateRequest" where
  "WithHeader h r =
     r\<lparr>RoleCreateRequest.Header :=
          Some (fold (\<lambda>(k, v) m. Header_Add m k v) h (entriesOf (RoleCreateRequest.Header r)))\<rparr>"

definition WithOpaqueID :: "string \<Rightarrow> RoleCreateRequest \<Rightarrow> RoleCreateRequest" where
  "WithOpaqueID s r =
     r\<lparr>RoleCreateRequest.Header :=
          Some (Header_Set (entriesOf (RoleCreateRequest.Header r)) ''X-Opaque-Id'' s)\<rparr>"

text \<open>\<^verbatim>\<open>for _, f := range o { f(&r) }\<close>\<close>

definition applyOptions ::
  "(RoleCreateRequest \<Rightarrow> RoleCreateRequest) list \<Rightarrow> RoleCreateRequest \<Rightarrow> RoleCreateRequest" where
  "applyOptions opts r = fold (\<lambda>f r. f r) opts r"

section \<open>\<^verbatim>\<open>Do\<close>\<close>

subsection \<open>The steps of \<^verbatim>\<open>RoleCreateRequest.Do\<close> and \<^verbatim>\<open>RoleMappingCreateRequest.Do\<close>\<close>

text \<open>
  \<^verbatim>\<open>params\<close> is a \<^verbatim>\<open>map[string]string\<close> filled by eight guarded assignments to eight
  different keys: the list of its entries, in the order of the assignments.
\<close>

definition collectParams :: "package \<Rightarrow> RoleCreateRequest \<Rightarrow> (string \<times> string) list" where
  "collectParams P r =
     (if MasterTimeout r \<noteq> 0 then [(''master_timeout'', formatDuration P (MasterTimeout r))] else []) @
     (if ClusterManagerTimeout r \<noteq> 0
        then [(''cluster_manager_timeout'', formatDuration P (ClusterManagerTimeout r))] else []) @
     (if Timeout r \<noteq> 0 then [(''timeout'', formatDuration P (Timeout r))] else []) @
     (if WaitForActiveShards r \<noteq> [] then [(''wait_for_active_shards'', WaitForActiveShards r)] else []) @
     (if Pretty r then [(''pretty'', ''true'')] else []) @
     (if Human r then [(''human'', ''true'')] else []) @
     (if ErrorTrace r then [(''error_trace'', ''true'')] else []) @
     (if length (FilterPath r) > 0 then [(''filter_path'', Join (FilterPath r) '','')] else [])"

text \<open>
  \<^verbatim>\<open>if len(params) > 0 { q := req.URL.Query(); for k, v := range params { q.Set(k, v) };
  req.URL.RawQuery = q.Encode() }\<close>
\<close>

definition setParams :: "(string \<times> string) list \<Rightarrow> Values \<Rightarrow> Values" where
  "setParams params q = fold (\<lambda>(k, v) q. Values_Set q k v) params q"

definition encodeParams :: "package \<Rightarrow> (string \<times> string) list \<Rightarrow> http_Request \<Rightarrow> http_Request" where
  "encodeParams P params req =
     (if length params > 0
      then req\<lparr>URL := (URL req)\<lparr>RawQuery :=
             Values_Encode P (setParams params (url_Query P (RawQuery (URL req))))\<rparr>\<rparr>
      else req)"

text \<open>\<^verbatim>\<open>if r.Body != nil { req.Header[headerContentType] = headerContentTypeJSON }\<close>\<close>

definition setContentType :: "package \<Rightarrow> RoleCreateRequest \<Rightarrow> http_Request \<Rightarrow> http_Request" where
  "setContentType P r req =
     (if RoleCreateRequest.Body r \<noteq> None
      then req\<lparr>http_Request.Header :=
             Header_assign (http_Request.Header req) (headerContentType P) (headerContentTypeJSON P)\<rparr>
      else req)"

text \<open>
  \<^verbatim>\<open>if len(r.Header) > 0 { if len(req.Header) == 0 { req.Header = r.Header } else {
  for k, vv := range r.Header { for _, v := range vv { req.Header.Add(k, v) } } } }\<close>
\<close>

definition addAll :: "Header \<Rightarrow> Header \<Rightarrow> Header" where
  "addAll src dst = fold (\<lambda>(k, vv) m. fold (\<lambda>v m. Header_Add m k v) vv m) src dst"

definition mergeHeader :: "RoleCreateRequest \<Rightarrow> http_Request \<Rightarrow> http_Request" where
  "mergeHeader r req =
     (if length (entriesOf (RoleCreateRequest.Header r)) > 0
      then (if length (http_Request.Header req) = 0
            then req\<lparr>http_Request.Header := entriesOf (RoleCreateRequest.Header r)\<rparr>
            else req\<lparr>http_Request.Header :=
                   addAll (entriesOf (RoleCreateRequest.Header r)) (http_Request.Header req)\<rparr>)
      else req)"

text \<open>\<^verbatim>\<open>if ctx != nil { req = req.WithContext(ctx) }\<close>\<close>

definition bindContext :: "Context option \<Rightarrow> http_Request \<Rightarrow> http_Request" where
  "bindContext c req = (case c of None \<Rightarrow> req | Some x \<Rightarrow> req\<lparr>http_Request.ctx := Some x\<rparr>)"

text \<open>
  \<^verbatim>\<open>res, err := transport.Perform(req); if err != nil { return nil, err }\<close>, then the
  \<^verbatim>\<open>Response\<close> literal.
\<close>

definition perform :: "'w Transport \<Rightarrow> http_Request \<Rightarrow> 'w \<Rightarrow> (error + Response) \<times> 'w" where
  "perform transport req w =
     (case transport req w of
        (Inl err, w') \<Rightarrow> (Inl err, w')
      | (Inr res, w') \<Rightarrow>
          (Inr \<lparr>StatusCode = http_Response.StatusCode res,
                Body = http_Response.Body res,
                Header = http_Response.Header res\<rparr>, w'))"

subsection \<open>The four operations\<close>

text \<open>
  Each \<^verbatim>\<open>Do\<close> is the request it builds (everything up to \<^verbatim>\<open>transport.Perform\<close>), then
  \<^verbatim>\<open>perform\<close>. A failure of \<^verbatim>\<open>newRequest\<close> returns before the transport is reached.
\<close>

definition RoleCreateRequest_path :: "RoleCreateRequest \<Rightarrow> string" where
  "RoleCreateRequest_path r =
     String (WriteString
       (WriteString (Grow Builder_zero (30 + length (Role r))) ''/_plugins/_security/api/roles/'')
       (Role r))"

definition RoleCreateRequest_request ::
  "package \<Rightarrow> RoleCreateRequest \<Rightarrow> Context option \<Rightarrow> error + http_Request" where
  "RoleCreateRequest_request P r c =
     (let method = ''PUT'';
          path = RoleCreateRequest_path r;
          params = collectParams P r
      in case newRequest P method path (RoleCreateRequest.Body r) of
           Inl err \<Rightarrow> Inl err
         | Inr req \<Rightarrow>
             Inr (bindContext c (mergeHeader r (setContentType P r (encodeParams P params req)))))"

definition RoleCreateRequest_Do ::
  "package \<Rightarrow> RoleCreateRequest \<Rightarrow> Context option \<Rightarrow> 'w Transport \<Rightarrow> 'w \<Rightarrow> (error + Response) \<times> 'w" where
  "RoleCreateRequest_Do P r c transport w =
     (case RoleCreateRequest_request P r c of
        Inl err \<Rightarrow> (Inl err, w)
      | Inr req \<Rightarrow> perform transport req w)"

definition newRoleCreateFunc ::
  "package \<Rightarrow> 'w Transport \<Rightarrow> string \<Rightarrow> (RoleCreateRequest \<Rightarrow> RoleCreateRequest) list \<Rightarrow>
   'w \<Rightarrow> (error + Response) \<times> 'w" where
  "newRoleCreateFunc P t role opts w =
     (let r = applyOptions opts (zeroRequest role)
      in RoleCreateRequest_Do P r (RoleCreateRequest.ctx r) t w)"

definition RoleMappingCreateRequest_path :: "RoleMappingCreateRequest \<Rightarrow> string" where
  "RoleMappingCreateRequest_path r =
     String (WriteString
       (WriteString (Grow Builder_zero (37 + length (Role r))) ''/_plugins/_security/api/rolesmapping/'')
       (Role r))"

definition RoleMappingCreateRequest_request ::
  "package \<Rightarrow> RoleMappingCreateRequest \<Rightarrow> Context option \<Rightarrow> error + http_Request" where
  "RoleMappingCreateRequest_request P r c =
     (let method = ''PUT'';
          path = RoleMappingCreateRequest_path r;
          params = collectParams P r
      in case newRequest P method path (RoleCreateRequest.Body r) of
           Inl err \<Rightarrow> Inl err
         | Inr req \<Rightarrow>
             Inr (bindContext c (mergeHeader r (setContentType P r (encodeParams P params req)))))"

definition RoleMappingCreateRequest_Do ::
  "package \<Rightarrow> RoleMappingCreateRequest \<Rightarrow> Context option \<Rightarrow> 'w Transport \<Rightarrow> 'w \<Rightarrow>
   (error + Response) \<times> 'w" where
  "RoleMappingCreateRequest_Do P r c transport w =
     (case RoleMappingCreateRequest_request P r c of
        Inl err \<Rightarrow> (Inl err, w)
      | Inr req \<Rightarrow> perform transport req w)"

definition newRoleMappingCreateFunc ::
  "package \<Rightarrow> 'w Transport \<Rightarrow> string \<Rightarrow> (RoleMappingCreateRequest \<Rightarrow> RoleMappingCreateRequest) list \<Rightarrow>
   'w \<Rightarrow> (error + Response) \<times> 'w" where
  "newRoleMappingCreateFunc P t role opts w =
     (let r = applyOptions opts (zeroRequest role)
      in RoleMappingCreateRequest_Do P r (RoleCreateRequest.ctx r) t w)"

definition RoleDeleteRequest_path :: "RoleDeleteRequest \<Rightarrow> string" where
  "RoleDeleteRequest_path r =
     String (WriteString
       (WriteString (Grow Builder_zero (30 + length (Role r))) ''/_plugins/_security/api/roles/'')
       (Role r))"

definition RoleDeleteRequest_request ::
  "package \<Rightarrow> RoleDeleteRequest \<Rightarrow> Context option \<Rightarrow> error + http_Request" where
  "RoleDeleteRequest_request P r c =
     (let method = ''DELETE'';
          path = RoleDeleteRequest_path r
      in case newRequest P method path None of
           Inl err \<Rightarrow> Inl err
         | Inr req \<Rightarrow> Inr (bindContext c req))"

definition RoleDeleteRequest_Do ::
  "package \<Rightarrow> RoleDeleteRequest \<Rightarrow> Context option \<Rightarrow> 'w Transport \<Rightarrow> 'w \<Rightarrow> (error + Response) \<times> 'w" where
  "RoleDeleteRequest_Do P r c transport w =
     (case RoleDeleteRequest_request P r c of
        Inl err \<Rightarrow> (Inl err, w)
      | Inr req \<Rightarrow> perform transport req w)"

definition newRoleDeleteFunc ::
  "package \<Rightarrow> 'w Transport \<Rightarrow> string \<Rightarrow> (RoleDeleteRequest \<Rightarrow> RoleDeleteRequest) list \<Rightarrow>
   'w \<Rightarrow> (error + Response) \<times> 'w" where
  "newRoleDeleteFunc P t role opts w =
     (let r = applyOptions opts (zeroRequest role)
      in RoleDeleteRequest_Do P r (RoleCreateRequest.ctx r) t w)"

definition RoleMappingDeleteRequest_path :: "RoleMappingDeleteRequest \<Rightarrow> string" where
  "RoleMappingDeleteRequest_path r =
     String (WriteString
       (WriteString (Grow Builder_zero (37 + length (Role r))) ''/_plugins/_security/api/rolesmapping/'')
       (Role r))"

definition RoleMappingDeleteRequest_request ::
  "package \<Rightarrow> RoleMappingDeleteRequest \<Rightarrow> Context option \<Rightarrow> error + http_Request" where
  "RoleMappingDeleteRequest_request P r c =
     (let method = ''DELETE'';
          path = RoleMappingDeleteRequest_path r
      in case newRequest P method path None of
           Inl err \<Rightarrow> Inl err
         | Inr req \<Rightarrow> Inr (bindContext c req))"

definition RoleMappingDeleteRequest_Do ::
  "package \<Rightarrow> RoleMappingDeleteRequest \<Rightarrow> Context option \<Rightarrow> 'w Transport \<Rightarrow> 'w \<Rightarrow>
   (error + Response) \<times> 'w" where
  "RoleMappingDeleteRequest_Do P r c transport w =
     (case RoleMappingDeleteRequest_request P r c of
        Inl err \<Rightarrow> (Inl err, w)
      | Inr req \<Rightarrow> perform transport req w)"

definition newRoleMappingDeleteFunc ::
  "package \<Rightarrow> 'w Transport \<Rightarrow> string \<Rightarrow> (RoleMappingDeleteRequest \<Rightarrow> RoleMappingDeleteRequest) list \<Rightarrow>
   'w \<Rightarrow> (error + Response) \<times> 'w" where
  "newRoleMappingDeleteFunc P t role opts w =
     (let r = applyOptions opts (zeroRequest role)
      in RoleMappingDeleteRequest_Do P r (RoleCreateRequest.ctx r) t w)"

section \<open>The request constructor\<close>

text \<open>
  Modelled from the spec: \<^verbatim>\<open>newRequest\<close> is declared elsewhere in the package. The spec calls
  it "build(method, path, body) \<rightarrow> request or error", lets it fail on a "malformed
  method/path/body combination" and lets the base request already have query parameters;
  URL handling is "a standard library capability". The request is a \<^verbatim>\<open>net/http\<close> request, so
  the model is the constructor of the standard library, \<^verbatim>\<open>http.NewRequest\<close>, which parses the
  path string with \<^verbatim>\<open>url.Parse\<close>:
  \<^item> the method must be made of token bytes (an empty method stands for \<^verbatim>\<open>GET\<close>);
  \<^item> the string is cut at the first \<^verbatim>\<open>#\<close>, what follows is the fragment;
  \<^item> a control byte before the fragment is an error;
  \<^item> a single \<^verbatim>\<open>?\<close> at the very end sets \<^verbatim>\<open>ForceQuery\<close>; otherwise the string is cut at the first
    \<^verbatim>\<open>?\<close> and what follows is the raw query, kept as it is;
  \<^item> in the path and in the fragment every \<^verbatim>\<open>%\<close> must start a two-digit hexadecimal escape,
    anything else is an error; the path of the URL is the path with its escapes decoded;
  \<^item> the request has the method, the URL, the body, an empty header map and no context of
    the caller's.
  The four operations only build strings that start with \<^verbatim>\<open>/_plugins\<close>. A string that does not
  start with exactly one \<^verbatim>\<open>/\<close> would carry a scheme or an authority; the model does not cover
  those and says so with an error of its own.
\<close>

definition stringContainsCTLByte :: "string \<Rightarrow> bool" where
  "stringContainsCTLByte s = list_ex (\<lambda>c. (of_char c :: nat) < 32 \<or> (of_char c :: nat) = 127) s"

text \<open>\<^verbatim>\<open>strings.Cut\<close> with a separator of one byte: what is before it and what is after it.\<close>

definition Cut :: "string \<Rightarrow> char \<Rightarrow> string \<times> string" where
  "Cut s sep = (takeWhile (\<lambda>c. c \<noteq> sep) s, drop 1 (dropWhile (\<lambda>c. c \<noteq> sep) s))"

definition ishex :: "char \<Rightarrow> bool" where
  "ishex c =
     (let n = (of_char c :: nat) in
        (48 \<le> n \<and> n \<le> 57) \<or> (97 \<le> n \<and> n \<le> 102) \<or> (65 \<le> n \<and> n \<le> 70))"

definition unhex :: "char \<Rightarrow> nat" where
  "unhex c =
     (let n = (of_char c :: nat) in
        if 48 \<le> n \<and> n \<le> 57 then n - 48
        else if 97 \<le> n \<and> n \<le> 102 then n - 97 + 10
        else if 65 \<le> n \<and> n \<le> 70 then n - 65 + 10
        else 0)"

fun unescape :: "string \<Rightarrow> error + string" where
  "unescape [] = Inr []"
| "unescape (c # cs) =
     (if c = CHR ''%''
      then (case cs of
              a # b # rest \<Rightarrow>
                (if ishex a \<and> ishex b
                 then (case unescape rest of
                         Inl err \<Rightarrow> Inl err
                       | Inr t \<Rightarrow> Inr (char_of (unhex a * 16 + unhex b) # t))
                 else Inl (Error ''invalid URL escape''))
            | _ \<Rightarrow> Inl (Error ''invalid URL escape''))
      else (case unescape cs of Inl err \<Rightarrow> Inl err | Inr t \<Rightarrow> Inr (c # t)))"

definition url_Parse :: "string \<Rightarrow> error + url_URL" where
  "url_Parse rawURL =
     (if take 1 rawURL = ''/'' \<and> take 2 rawURL \<noteq> ''//''
      then (let u = fst (Cut rawURL (CHR ''#''));
                frag = snd (Cut rawURL (CHR ''#''));
                force = (u \<noteq> [] \<and> last u = CHR ''?'' \<and> count_list u (CHR ''?'') = 1);
                rest = (if force then butlast u else fst (Cut u (CHR ''?'')));
                query = (if force then [] else snd (Cut u (CHR ''?'')))
            in if stringContainsCTLByte u
               then Inl (Error ''net/url: invalid control character in URL'')
               else (case unescape rest of
                       Inl err \<Rightarrow> Inl err
                     | Inr path \<Rightarrow>
                         (case unescape frag of
                            Inl err \<Rightarrow> Inl err
                          | Inr f \<Rightarrow> Inr \<lparr>Path = path, RawQuery = query, ForceQuery = force\<rparr>)))
      else Inl (Error ''scheme or authority: not modelled''))"

definition http_NewRequest :: "string \<Rightarrow> string \<Rightarrow> Reader option \<Rightarrow> error + http_Request" where
  "http_NewRequest method url body =
     (let method = (if method = [] then ''GET'' else method)
      in if \<not> list_all validHeaderFieldByte method
         then Inl (Error ''net/http: invalid method'')
         else (case url_Parse url of
                 Inl err \<Rightarrow> Inl err
               | Inr u \<Rightarrow> Inr \<lparr>Method = method, URL = u, Body = body, Header = [], ctx = None\<rparr>))"

section \<open>A package to run the operations on\<close>

text \<open>
  The theorems about \<^verbatim>\<open>Do\<close> hold for every package and every transport. The definitions of
  this section are one package and two transports, to run the operations on concrete
  inputs.
\<close>

text \<open>
  Modelled from the spec: \<^verbatim>\<open>formatDuration\<close> is declared elsewhere in the package. The spec
  calls it "duration \<rightarrow> wire-format string" and gives \<^verbatim>\<open>30s\<close> as an example of the format. This
  one knows three durations: five seconds, thirty seconds and one minute.
\<close>

definition exampleFormatDuration :: "Duration \<Rightarrow> string" where
  "exampleFormatDuration d =
     (if d = 5000000000 then ''5s'' else if d = 30000000000 then ''30s''
      else if d = 60000000000 then ''1m'' else ''1ms'')"

text \<open>
  Modelled from the spec: \<^verbatim>\<open>newRequest\<close> is declared elsewhere in the package. The spec calls
  it "build(method, path, body) \<rightarrow> request or error". This one never fails and stores the
  method, the path and the body as they are, with an empty raw query, an empty header map
  and no context. It is what the constructor above returns for \<^verbatim>\<open>PUT\<close> and \<^verbatim>\<open>DELETE\<close> and a path
  without \<^verbatim>\<open>?\<close>, \<^verbatim>\<open>#\<close>, \<^verbatim>\<open>%\<close> and control bytes.
\<close>

definition exampleNewRequest :: "string \<Rightarrow> string \<Rightarrow> Reader option \<Rightarrow> error + http_Request" where
  "exampleNewRequest method path body =
     Inr \<lparr>Method = method, URL = \<lparr>Path = path, RawQuery = [], ForceQuery = False\<rparr>, Body = body, Header = [],
          ctx = None\<rparr>"

text \<open>
  Modelled from the spec: the query encoding is "assumed to be a standard library
  capability". This one writes the values of the eight recognized keys as \<^verbatim>\<open>key=value\<close>, the
  keys in sorted order, joined by \<^verbatim>\<open>&\<close>, with nothing escaped.
\<close>

definition exampleEncode :: "Values \<Rightarrow> string" where
  "exampleEncode q =
     Join (concat (map (\<lambda>k. map (\<lambda>v. k @ ''='' @ v) (case q k of None \<Rightarrow> [] | Some vs \<Rightarrow> vs))
       [''cluster_manager_timeout'', ''error_trace'', ''filter_path'', ''human'',
        ''master_timeout'', ''pretty'', ''timeout'', ''wait_for_active_shards''])) ''&''"

text \<open>
  Modelled from the spec: \<^verbatim>\<open>headerContentType\<close> and \<^verbatim>\<open>headerContentTypeJSON\<close> are declared
  elsewhere in the package; the spec calls the value "a fixed JSON media type". The package
  of the examples takes \<^verbatim>\<open>Content-Type\<close> and \<^verbatim>\<open>application/json\<close>, the three functions above, and
  reads every raw query as no values (its requests start with an empty one).
\<close>

definition examplePackage :: package where
  "examplePackage =
     \<lparr>formatDuration = exampleFormatDuration,
      newRequest = exampleNewRequest,
      headerContentType = ''Content-Type'',
      headerContentTypeJSON = [''application/json''],
      url_Query = (\<lambda>s. Map.empty),
      Values_Encode = exampleEncode\<rparr>"

text \<open>
  Modelled from the spec: the transport is "an externally supplied capability", "take a
  fully-formed HTTP request and return an HTTP response or a transport-level error"; the
  package declares the interface only. Two transports for the examples: the world is the
  list of the requests received so far; one answers 200 with no body, the other fails.
\<close>

definition okTransport :: "(http_Request list) Transport" where
  "okTransport req w =
     (Inr \<lparr>http_Response.StatusCode = 200, http_Response.Body = None, http_Response.Header = []\<rparr>,
      w @ [req])"

definition failingTransport :: "(http_Request list) Transport" where
  "failingTransport req w = (Inl (Error ''connection refused''), w @ [req])"

section \<open>Facts about the steps\<close>

lemma perform_error: "t req w = (Inl e, w') \<Longrightarrow> perform t req w = (Inl e, w')"
  by (simp add: perform_def)

lemma perform_Inl_iff: "perform t req w = (Inl e, w') \<longleftrightarrow> t req w = (Inl e, w')"
  by (auto simp: perform_def split: prod.splits sum.splits)

lemma paths:
  "RoleCreateRequest_path r = ''/_plugins/_security/api/roles/'' @ Role r"
  "RoleDeleteRequest_path r = ''/_plugins/_security/api/roles/'' @ Role r"
  "RoleMappingCreateRequest_path r = ''/_plugins/_security/api/rolesmapping/'' @ Role r"
  "RoleMappingDeleteRequest_path r = ''/_plugins/_security/api/rolesmapping/'' @ Role r"
  by (simp_all add: RoleCreateRequest_path_def RoleDeleteRequest_path_def
      RoleMappingCreateRequest_path_def RoleMappingDeleteRequest_path_def
      String_def WriteString_def Grow_def Builder_zero_def)

lemma URL_bindContext: "URL (bindContext c req) = URL req"
  by (simp add: bindContext_def split: option.splits)

lemma URL_setContentType: "URL (setContentType P r req) = URL req"
  by (simp add: setContentType_def)

lemma URL_mergeHeader: "URL (mergeHeader r req) = URL req"
  by (simp add: mergeHeader_def)

lemma Path_encodeParams: "Path (URL (encodeParams P ps req)) = Path (URL req)"
  by (simp add: encodeParams_def)

lemma Method_encodeParams: "Method (encodeParams P ps req) = Method req"
  by (simp add: encodeParams_def)

lemma Method_setContentType: "Method (setContentType P r req) = Method req"
  by (simp add: setContentType_def)

lemma Method_mergeHeader: "Method (mergeHeader r req) = Method req"
  by (simp add: mergeHeader_def)

lemma Method_bindContext: "Method (bindContext c req) = Method req"
  by (simp add: bindContext_def split: option.splits)

lemma delete_requests:
  "RoleDeleteRequest_request P r c =
     (case newRequest P ''DELETE'' (''/_plugins/_security/api/roles/'' @ Role r) None of
        Inl err \<Rightarrow> Inl err | Inr req \<Rightarrow> Inr (bindContext c req))"
  "RoleMappingDeleteRequest_request P r c =
     (case newRequest P ''DELETE'' (''/_plugins/_security/api/rolesmapping/'' @ Role r) None of
        Inl err \<Rightarrow> Inl err | Inr req \<Rightarrow> Inr (bindContext c req))"
  by (simp_all add: RoleDeleteRequest_request_def RoleMappingDeleteRequest_request_def paths)

lemma create_requests:
  "RoleCreateRequest_request P r c =
     (case newRequest P ''PUT'' (''/_plugins/_security/api/roles/'' @ Role r) (RoleCreateRequest.Body r) of
        Inl err \<Rightarrow> Inl err
      | Inr req \<Rightarrow> Inr (bindContext c (mergeHeader r (setContentType P r
                        (encodeParams P (collectParams P r) req)))))"
  "RoleMappingCreateRequest_request P r c =
     (case newRequest P ''PUT'' (''/_plugins/_security/api/rolesmapping/'' @ Role r) (RoleCreateRequest.Body r) of
        Inl err \<Rightarrow> Inl err
      | Inr req \<Rightarrow> Inr (bindContext c (mergeHeader r (setContentType P r
                        (encodeParams P (collectParams P r) req)))))"
  by (simp_all add: RoleCreateRequest_request_def RoleMappingCreateRequest_request_def paths)

lemma Role_WithOpaqueID: "Role (WithOpaqueID s r) = Role r"
  by (simp add: WithOpaqueID_def)

lemma Header_bindContext: "http_Request.Header (bindContext c req) = http_Request.Header req"
  by (simp add: bindContext_def split: option.splits)

lemma Body_bindContext: "http_Request.Body (bindContext c req) = http_Request.Body req"
  by (simp add: bindContext_def split: option.splits)

lemma example_create_readall:
  "RoleCreateRequest_request examplePackage (applyOptions [] (zeroRequest ''readall''))
     (RoleCreateRequest.ctx (applyOptions [] (zeroRequest ''readall''))) =
   Inr \<lparr>Method = ''PUT'', URL = \<lparr>Path = ''/_plugins/_security/api/roles/readall'', RawQuery = [], ForceQuery = False\<rparr>,
        Body = None, Header = [], ctx = None\<rparr>"
  by (simp add: create_requests applyOptions_def zeroRequest_def examplePackage_def exampleNewRequest_def
      collectParams_def encodeParams_def setContentType_def mergeHeader_def entriesOf_def bindContext_def)

lemma setParams_append: "setParams (xs @ ys) q = setParams ys (setParams xs q)"
  by (simp add: setParams_def)

lemma setParams_if: "setParams (if b then [(k, v)] else []) q = (if b then q(k \<mapsto> [v]) else q)"
  by (simp add: setParams_def Values_Set_def)

lemma setParams_Nil: "setParams [] q = q"
  by (simp add: setParams_def)

lemma setParams_collectParams:
  "setParams (collectParams P r) q =
     (let q1 = (if MasterTimeout r \<noteq> 0 then q(''master_timeout'' \<mapsto> [formatDuration P (MasterTimeout r)]) else q);
          q2 = (if ClusterManagerTimeout r \<noteq> 0
                then q1(''cluster_manager_timeout'' \<mapsto> [formatDuration P (ClusterManagerTimeout r)]) else q1);
          q3 = (if Timeout r \<noteq> 0 then q2(''timeout'' \<mapsto> [formatDuration P (Timeout r)]) else q2);
          q4 = (if WaitForActiveShards r \<noteq> [] then q3(''wait_for_active_shards'' \<mapsto> [WaitForActiveShards r]) else q3);
          q5 = (if Pretty r then q4(''pretty'' \<mapsto> [''true'']) else q4);
          q6 = (if Human r then q5(''human'' \<mapsto> [''true'']) else q5);
          q7 = (if ErrorTrace r then q6(''error_trace'' \<mapsto> [''true'']) else q6)
      in (if FilterPath r \<noteq> [] then q7(''filter_path'' \<mapsto> [Join (FilterPath r) '','']) else q7))"
  unfolding collectParams_def setParams_append setParams_if Let_def
  by simp

lemma lookup_master:
  "setParams (collectParams P r) q ''master_timeout'' =
     (if MasterTimeout r \<noteq> 0 then Some [formatDuration P (MasterTimeout r)] else q ''master_timeout'')"
  unfolding setParams_collectParams Let_def by simp

lemma lookup_cluster:
  "setParams (collectParams P r) q ''cluster_manager_timeout'' =
     (if ClusterManagerTimeout r \<noteq> 0 then Some [formatDuration P (ClusterManagerTimeout r)]
      else q ''cluster_manager_timeout'')"
  unfolding setParams_collectParams Let_def by simp

lemma lookup_timeout:
  "setParams (collectParams P r) q ''timeout'' =
     (if Timeout r \<noteq> 0 then Some [formatDuration P (Timeout r)] else q ''timeout'')"
  unfolding setParams_collectParams Let_def by simp

lemma lookup_shards:
  "setParams (collectParams P r) q ''wait_for_active_shards'' =
     (if WaitForActiveShards r \<noteq> [] then Some [WaitForActiveShards r] else q ''wait_for_active_shards'')"
  unfolding setParams_collectParams Let_def by simp

lemma lookup_pretty:
  "setParams (collectParams P r) q ''pretty'' = (if Pretty r then Some [''true''] else q ''pretty'')"
  unfolding setParams_collectParams Let_def by simp

lemma lookup_human:
  "setParams (collectParams P r) q ''human'' = (if Human r then Some [''true''] else q ''human'')"
  unfolding setParams_collectParams Let_def by simp

lemma lookup_error_trace:
  "setParams (collectParams P r) q ''error_trace'' = (if ErrorTrace r then Some [''true''] else q ''error_trace'')"
  unfolding setParams_collectParams Let_def by simp

lemma lookup_filter_path:
  "setParams (collectParams P r) q ''filter_path'' =
     (if FilterPath r \<noteq> [] then Some [Join (FilterPath r) '',''] else q ''filter_path'')"
  unfolding setParams_collectParams Let_def by simp

lemma lookup_other:
  "k \<notin> {''master_timeout'', ''cluster_manager_timeout'', ''timeout'', ''wait_for_active_shards'',
         ''pretty'', ''human'', ''error_trace'', ''filter_path''} \<Longrightarrow>
   setParams (collectParams P r) q k = q k"
  unfolding setParams_collectParams Let_def by simp

lemma RawQuery_encodeParams:
  "RawQuery (URL (encodeParams P params req)) =
     (if params \<noteq> [] then Values_Encode P (setParams params (url_Query P (RawQuery (URL req))))
      else RawQuery (URL req))"
  by (simp add: encodeParams_def)

lemma encodeParams_Nil: "encodeParams P [] req = req"
  by (simp add: encodeParams_def)

lemma collectParams_Nil_iff:
  "collectParams P r = [] \<longleftrightarrow>
     MasterTimeout r = 0 \<and> ClusterManagerTimeout r = 0 \<and> Timeout r = 0 \<and> WaitForActiveShards r = [] \<and>
     \<not> Pretty r \<and> \<not> Human r \<and> \<not> ErrorTrace r \<and> FilterPath r = []"
  by (simp add: collectParams_def)

lemma create_request_RawQuery:
  "newRequest P ''PUT'' (''/_plugins/_security/api/roles/'' @ Role r) (RoleCreateRequest.Body r) = Inr req \<Longrightarrow>
   \<exists>req'. RoleCreateRequest_request P r c = Inr req' \<and>
          Path (URL req') = Path (URL req) \<and>
          RawQuery (URL req') =
            (if collectParams P r \<noteq> []
             then Values_Encode P (setParams (collectParams P r) (url_Query P (RawQuery (URL req))))
             else RawQuery (URL req))"
  by (simp add: create_requests URL_bindContext URL_mergeHeader URL_setContentType RawQuery_encodeParams
      Path_encodeParams)

lemma mapping_create_request_RawQuery:
  "newRequest P ''PUT'' (''/_plugins/_security/api/rolesmapping/'' @ Role r) (RoleCreateRequest.Body r) = Inr req \<Longrightarrow>
   \<exists>req'. RoleMappingCreateRequest_request P r c = Inr req' \<and>
          Path (URL req') = Path (URL req) \<and>
          RawQuery (URL req') =
            (if collectParams P r \<noteq> []
             then Values_Encode P (setParams (collectParams P r) (url_Query P (RawQuery (URL req))))
             else RawQuery (URL req))"
  by (simp add: create_requests URL_bindContext URL_mergeHeader URL_setContentType RawQuery_encodeParams
      Path_encodeParams)

lemma in_if_single: "x \<in> fst ` set (if b then [(k, v)] else []) \<longleftrightarrow> b \<and> x = k"
  by (cases b) auto

lemma collectParams_key_iff:
  "x \<in> fst ` set (collectParams P r) \<longleftrightarrow>
     (MasterTimeout r \<noteq> 0 \<and> x = ''master_timeout'') \<or>
     (ClusterManagerTimeout r \<noteq> 0 \<and> x = ''cluster_manager_timeout'') \<or>
     (Timeout r \<noteq> 0 \<and> x = ''timeout'') \<or>
     (WaitForActiveShards r \<noteq> [] \<and> x = ''wait_for_active_shards'') \<or>
     (Pretty r \<and> x = ''pretty'') \<or>
     (Human r \<and> x = ''human'') \<or>
     (ErrorTrace r \<and> x = ''error_trace'') \<or>
     (FilterPath r \<noteq> [] \<and> x = ''filter_path'')"
  unfolding collectParams_def set_append image_Un Un_iff in_if_single by simp

lemma canon_X: "CanonicalMIMEHeaderKey ''X'' = ''X''"
  by (simp add: CanonicalMIMEHeaderKey_def validHeaderFieldByte_def canonByte_def)

lemma canon_opaque: "CanonicalMIMEHeaderKey ''X-Opaque-Id'' = ''X-Opaque-Id''"
  by (simp add: CanonicalMIMEHeaderKey_def validHeaderFieldByte_def canonByte_def)

lemma canon_ct: "CanonicalMIMEHeaderKey ''content-type'' = ''Content-Type''"
  by code_simp

lemma canon_ct_fixed: "CanonicalMIMEHeaderKey ''Content-Type'' = ''Content-Type''"
  by code_simp

lemma map_of_Header_append:
  "map_of (Header_append h k v) K =
     (if K = k then Some ((case map_of h k of None \<Rightarrow> [] | Some vs \<Rightarrow> vs) @ [v]) else map_of h K)"
  by (induction h k v rule: Header_append.induct) auto

lemma map_of_Header_assign: "map_of (Header_assign h k ws) K = (if K = k then Some ws else map_of h K)"
  by (induction h k ws rule: Header_assign.induct) auto

lemma Header_assign_not_Nil: "Header_assign h k ws \<noteq> []"
  by (induction h k ws rule: Header_assign.induct) (simp_all split: if_splits)

lemma Header_assign_twice: "Header_assign (Header_assign h k ws) k ws' = Header_assign h k ws'"
  by (induction h k ws rule: Header_assign.induct) auto

lemma map_of_fold_Add:
  "map_of m K = Some old \<Longrightarrow>
   map_of (fold (\<lambda>v m. Header_Add m k v) vv m) K =
     Some (old @ (if CanonicalMIMEHeaderKey k = K then vv else []))"
proof (induction vv arbitrary: m old)
  case Nil
  then show ?case by simp
next
  case (Cons v vv)
  show ?case
  proof (cases "CanonicalMIMEHeaderKey k = K")
    case True
    with Cons.prems have "map_of (Header_Add m k v) K = Some (old @ [v])"
      by (simp add: Header_Add_def map_of_Header_append)
    from Cons.IH [OF this] True show ?thesis by simp
  next
    case False
    with Cons.prems have "map_of (Header_Add m k v) K = Some old"
      by (auto simp: Header_Add_def map_of_Header_append)
    from Cons.IH [OF this] False show ?thesis by simp
  qed
qed

lemma map_of_addAll:
  "map_of dst K = Some old \<Longrightarrow>
   map_of (addAll src dst) K =
     Some (old @ concat (map snd (filter (\<lambda>(k, vv). CanonicalMIMEHeaderKey k = K) src)))"
proof (induction src arbitrary: dst old)
  case Nil
  then show ?case by (simp add: addAll_def)
next
  case (Cons e src)
  obtain k vv where e: "e = (k, vv)" by (cases e)
  let ?dst' = "fold (\<lambda>v m. Header_Add m k v) vv dst"
  have step: "addAll (e # src) dst = addAll src ?dst'"
    by (simp add: addAll_def e)
  have "map_of ?dst' K = Some (old @ (if CanonicalMIMEHeaderKey k = K then vv else []))"
    using Cons.prems by (rule map_of_fold_Add)
  from Cons.IH [OF this] show ?case
    unfolding step by (cases "CanonicalMIMEHeaderKey k = K") (simp_all add: e)
qed

lemma WithHeader_X12:
  "RoleCreateRequest.Header (WithHeader [(''X'', ''2'')] (WithHeader [(''X'', ''1'')] r)) =
     Some (Header_append (Header_append (entriesOf (RoleCreateRequest.Header r)) ''X'' ''1'') ''X'' ''2'')"
  by (simp add: WithHeader_def Header_Add_def canon_X entriesOf_def)

lemma Header_append_twice_lookup:
  "map_of (Header_append (Header_append h k a) k b) k =
     Some ((case map_of h k of None \<Rightarrow> [] | Some vs \<Rightarrow> vs) @ [a, b])"
  by (simp add: map_of_Header_append)

lemma lookup_setContentType:
  "RoleCreateRequest.Body r \<noteq> None \<Longrightarrow>
   map_of (http_Request.Header (setContentType P r req)) (headerContentType P) = Some (headerContentTypeJSON P)"
  by (simp add: setContentType_def map_of_Header_assign)

lemma Header_setContentType_not_Nil:
  "RoleCreateRequest.Body r \<noteq> None \<Longrightarrow> http_Request.Header (setContentType P r req) \<noteq> []"
  by (simp add: setContentType_def Header_assign_not_Nil)

lemma lookup_mergeHeader:
  assumes "http_Request.Header req \<noteq> []" and "map_of (http_Request.Header req) K = Some old"
  shows "map_of (http_Request.Header (mergeHeader r req)) K =
           Some (old @ concat (map snd (filter (\<lambda>(k, vv). CanonicalMIMEHeaderKey k = K)
                                          (entriesOf (RoleCreateRequest.Header r)))))"
proof (cases "entriesOf (RoleCreateRequest.Header r) = []")
  case True
  with assms show ?thesis by (simp add: mergeHeader_def)
next
  case False
  with assms have "http_Request.Header (mergeHeader r req) =
                   addAll (entriesOf (RoleCreateRequest.Header r)) (http_Request.Header req)"
    by (simp add: mergeHeader_def)
  with map_of_addAll [OF assms(2)] show ?thesis by simp
qed

lemma content_type_of_decorated:
  assumes "RoleCreateRequest.Body r \<noteq> None"
  shows "Header_lookup
           (http_Request.Header (bindContext c (mergeHeader r (setContentType P r (encodeParams P ps req)))))
           (headerContentType P) =
         Some (headerContentTypeJSON P @
               concat (map snd (filter (\<lambda>(k, vv). CanonicalMIMEHeaderKey k = headerContentType P)
                                  (entriesOf (RoleCreateRequest.Header r)))))"
  unfolding Header_lookup_def Header_bindContext
  by (rule lookup_mergeHeader [OF Header_setContentType_not_Nil [OF assms] lookup_setContentType [OF assms]])

lemma example_body_and_caller_content_type:
  "Header_lookup
     (http_Request.Header (bindContext None
        (mergeHeader (WithHeader [(''content-type'', ''text/plain'')] (WithBody (Some ''a,b'') (zeroRequest ''readall'')))
          (setContentType examplePackage
             (WithHeader [(''content-type'', ''text/plain'')] (WithBody (Some ''a,b'') (zeroRequest ''readall'')))
             (encodeParams examplePackage [] req)))))
     ''Content-Type'' = Some [''application/json'', ''text/plain'']"
proof -
  let ?r = "WithHeader [(''content-type'', ''text/plain'')] (WithBody (Some ''a,b'') (zeroRequest ''readall''))"
  have b: "RoleCreateRequest.Body ?r \<noteq> None"
    by (simp add: WithHeader_def WithBody_def)
  have h: "entriesOf (RoleCreateRequest.Header ?r) = [(''Content-Type'', [''text/plain''])]"
    by (simp add: WithHeader_def WithBody_def zeroRequest_def entriesOf_def Header_Add_def canon_ct)
  from content_type_of_decorated [OF b, of None examplePackage "[]" req] show ?thesis
    by (simp add: h examplePackage_def canon_ct_fixed)
qed

lemma Cut_absent: "sep \<notin> set s \<Longrightarrow> Cut s sep = (s, [])"
  by (induction s) (auto simp: Cut_def)

lemma fst_Cut_subset: "set (fst (Cut s sep)) \<subseteq> set s"
  by (auto simp: Cut_def dest: set_takeWhileD)

lemma unescape_no_percent: "CHR ''%'' \<notin> set s \<Longrightarrow> unescape s = Inr s"
  by (induction s) auto

lemma CTL_append: "stringContainsCTLByte (a @ b) \<longleftrightarrow> stringContainsCTLByte a \<or> stringContainsCTLByte b"
  by (simp add: stringContainsCTLByte_def)

lemma CTL_prefixes:
  "\<not> stringContainsCTLByte ''/_plugins/_security/api/roles/''"
  "\<not> stringContainsCTLByte ''/_plugins/_security/api/rolesmapping/''"
  by (simp_all add: stringContainsCTLByte_def)

lemma query_absent:
  assumes "CHR ''?'' \<notin> set u"
  shows "\<not> (u \<noteq> [] \<and> last u = CHR ''?'' \<and> count_list u (CHR ''?'') = 1)"
    and "Cut u (CHR ''?'') = (u, [])"
  using assms last_in_set [of u] by (auto simp: Cut_absent)

lemma url_Parse_clean:
  assumes "take 1 p = ''/''" and "take 2 p \<noteq> ''//''"
    and "CHR ''#'' \<notin> set p" and "CHR ''?'' \<notin> set p" and "CHR ''%'' \<notin> set p"
    and "\<not> stringContainsCTLByte p"
  shows "url_Parse p = Inr \<lparr>Path = p, RawQuery = [], ForceQuery = False\<rparr>"
  using assms
  by (simp add: url_Parse_def Cut_absent query_absent unescape_no_percent)

lemma url_Parse_no_query:
  assumes "CHR ''?'' \<notin> set p" and "url_Parse p = Inr u"
  shows "RawQuery u = [] \<and> \<not> ForceQuery u"
proof -
  have q: "CHR ''?'' \<notin> set (fst (Cut p (CHR ''#'')))"
    using assms(1) fst_Cut_subset [of p "CHR ''#''"] by blast
  note f = query_absent [OF q]
  from assms(2) f show ?thesis
    by (auto simp: url_Parse_def Let_def split: if_splits sum.splits)
qed

lemma valid_methods: "list_all validHeaderFieldByte ''PUT''" "list_all validHeaderFieldByte ''DELETE''"
  by (simp_all add: validHeaderFieldByte_def)

lemma http_NewRequest_PUT:
  "http_NewRequest ''PUT'' p b =
     (case url_Parse p of Inl err \<Rightarrow> Inl err
      | Inr u \<Rightarrow> Inr \<lparr>Method = ''PUT'', URL = u, Body = b, Header = [], ctx = None\<rparr>)"
  by (simp add: http_NewRequest_def validHeaderFieldByte_def)

lemma http_NewRequest_DELETE:
  "http_NewRequest ''DELETE'' p b =
     (case url_Parse p of Inl err \<Rightarrow> Inl err
      | Inr u \<Rightarrow> Inr \<lparr>Method = ''DELETE'', URL = u, Body = b, Header = [], ctx = None\<rparr>)"
  by (simp add: http_NewRequest_def validHeaderFieldByte_def)

lemma url_Parse_roles_clean:
  assumes "CHR ''#'' \<notin> set ident" and "CHR ''?'' \<notin> set ident" and "CHR ''%'' \<notin> set ident"
    and "\<not> stringContainsCTLByte ident"
  shows "url_Parse (''/_plugins/_security/api/roles/'' @ ident) =
           Inr \<lparr>Path = ''/_plugins/_security/api/roles/'' @ ident, RawQuery = [], ForceQuery = False\<rparr>"
    and "url_Parse (''/_plugins/_security/api/rolesmapping/'' @ ident) =
           Inr \<lparr>Path = ''/_plugins/_security/api/rolesmapping/'' @ ident, RawQuery = [], ForceQuery = False\<rparr>"
  using assms by (simp_all add: url_Parse_clean stringContainsCTLByte_def)

lemma example_bad_escape: "http_NewRequest ''PUT'' ''/_plugins/_security/api/roles/%zz'' None = Inl (Error ''invalid URL escape'')"
  by (simp add: http_NewRequest_PUT url_Parse_def Cut_def stringContainsCTLByte_def ishex_def)

lemma example_decoded_escape: "http_NewRequest ''PUT'' ''/_plugins/_security/api/roles/%41#f'' None =
  Inr \<lparr>Method = ''PUT'', URL = \<lparr>Path = ''/_plugins/_security/api/roles/A'', RawQuery = [], ForceQuery = False\<rparr>,
       Body = None, Header = [], ctx = None\<rparr>"
  by code_simp

lemma exampleNewRequest_on_plain_paths:
  assumes "take 1 p = ''/''" and "take 2 p \<noteq> ''//''"
    and "CHR ''#'' \<notin> set p" and "CHR ''?'' \<notin> set p" and "CHR ''%'' \<notin> set p"
    and "\<not> stringContainsCTLByte p"
  shows "http_NewRequest ''PUT'' p b = exampleNewRequest ''PUT'' p b"
    and "http_NewRequest ''DELETE'' p b = exampleNewRequest ''DELETE'' p b"
  by (simp_all add: http_NewRequest_PUT http_NewRequest_DELETE url_Parse_clean [OF assms] exampleNewRequest_def)

lemma dom_setParams: "dom (setParams ps q) = dom q \<union> fst ` set ps"
proof (induction ps arbitrary: q)
  case Nil
  then show ?case by (simp add: setParams_def)
next
  case (Cons p ps)
  have step: "setParams (p # ps) q = setParams ps (Values_Set q (fst p) (snd p))"
    by (simp add: setParams_def case_prod_beta)
  show ?case
    unfolding step Cons.IH by (auto simp: Values_Set_def)
qed

lemma setParams_empty_None: "setParams ps Map.empty k = None \<longleftrightarrow> k \<notin> fst ` set ps"
proof -
  have "setParams ps Map.empty k = None \<longleftrightarrow> k \<notin> dom (setParams ps Map.empty)"
    by (simp add: domIff)
  then show ?thesis
    by (simp add: dom_setParams)
qed

lemma create_request_http:
  assumes "newRequest P = http_NewRequest"
  shows "RoleCreateRequest_request P r c =
           (case url_Parse (''/_plugins/_security/api/roles/'' @ Role r) of
              Inl err \<Rightarrow> Inl err
            | Inr u \<Rightarrow> Inr (bindContext c (mergeHeader r (setContentType P r (encodeParams P (collectParams P r)
                 \<lparr>Method = ''PUT'', URL = u, Body = RoleCreateRequest.Body r, Header = [], ctx = None\<rparr>)))))"
    and "RoleMappingCreateRequest_request P r c =
           (case url_Parse (''/_plugins/_security/api/rolesmapping/'' @ Role r) of
              Inl err \<Rightarrow> Inl err
            | Inr u \<Rightarrow> Inr (bindContext c (mergeHeader r (setContentType P r (encodeParams P (collectParams P r)
                 \<lparr>Method = ''PUT'', URL = u, Body = RoleCreateRequest.Body r, Header = [], ctx = None\<rparr>)))))"
  by (simp_all add: create_requests assms http_NewRequest_PUT split: sum.splits)

lemma URL_decorated:
  "URL (bindContext c (mergeHeader r (setContentType P r (encodeParams P ps req)))) =
     (URL req)\<lparr>RawQuery := (if ps \<noteq> [] then Values_Encode P (setParams ps (url_Query P (RawQuery (URL req))))
                              else RawQuery (URL req))\<rparr>"
  by (simp add: URL_bindContext URL_mergeHeader URL_setContentType encodeParams_def)

lemma Method_decorated:
  "Method (bindContext c (mergeHeader r (setContentType P r (encodeParams P ps req)))) = Method req"
  by (simp add: Method_bindContext Method_mergeHeader Method_setContentType Method_encodeParams)

lemma in_question: "CHR ''?'' \<notin> set s \<Longrightarrow> CHR ''?'' \<notin> set (''/_plugins/_security/api/roles/'' @ s)"
  "CHR ''?'' \<notin> set s \<Longrightarrow> CHR ''?'' \<notin> set (''/_plugins/_security/api/rolesmapping/'' @ s)"
  by simp_all

lemma create_request_query:
  assumes "newRequest P = http_NewRequest" and "CHR ''?'' \<notin> set (Role r)"
  shows "RoleCreateRequest_request P r c = Inr req' \<Longrightarrow>
           \<not> ForceQuery (URL req') \<and>
           RawQuery (URL req') =
             (if collectParams P r = [] then []
              else Values_Encode P (setParams (collectParams P r) (url_Query P [])))"
    and "RoleMappingCreateRequest_request P r c = Inr req' \<Longrightarrow>
           \<not> ForceQuery (URL req') \<and>
           RawQuery (URL req') =
             (if collectParams P r = [] then []
              else Values_Encode P (setParams (collectParams P r) (url_Query P [])))"
proof -
  assume b: "RoleCreateRequest_request P r c = Inr req'"
  then obtain u where u: "url_Parse (''/_plugins/_security/api/roles/'' @ Role r) = Inr u"
    and q: "req' = bindContext c (mergeHeader r (setContentType P r (encodeParams P (collectParams P r)
                 \<lparr>Method = ''PUT'', URL = u, Body = RoleCreateRequest.Body r, Header = [], ctx = None\<rparr>)))"
    unfolding create_request_http(1) [OF assms(1)] by (auto split: sum.splits)
  from url_Parse_no_query [OF in_question(1) [OF assms(2)] u]
  show "\<not> ForceQuery (URL req') \<and>
           RawQuery (URL req') =
             (if collectParams P r = [] then []
              else Values_Encode P (setParams (collectParams P r) (url_Query P [])))"
    unfolding q URL_decorated by simp
next
  assume b: "RoleMappingCreateRequest_request P r c = Inr req'"
  then obtain u where u: "url_Parse (''/_plugins/_security/api/rolesmapping/'' @ Role r) = Inr u"
    and q: "req' = bindContext c (mergeHeader r (setContentType P r (encodeParams P (collectParams P r)
                 \<lparr>Method = ''PUT'', URL = u, Body = RoleCreateRequest.Body r, Header = [], ctx = None\<rparr>)))"
    unfolding create_request_http(2) [OF assms(1)] by (auto split: sum.splits)
  from url_Parse_no_query [OF in_question(2) [OF assms(2)] u]
  show "\<not> ForceQuery (URL req') \<and>
           RawQuery (URL req') =
             (if collectParams P r = [] then []
              else Values_Encode P (setParams (collectParams P r) (url_Query P [])))"
    unfolding q URL_decorated by simp
qed

lemma create_request_exists:
  assumes "newRequest P = http_NewRequest" and "CHR ''?'' \<notin> set (Role r)" and "CHR ''#'' \<notin> set (Role r)"
    and "CHR ''%'' \<notin> set (Role r)" and "\<not> stringContainsCTLByte (Role r)"
  shows "\<exists>q. RoleCreateRequest_request P r c = Inr q"
    and "\<exists>q. RoleMappingCreateRequest_request P r c = Inr q"
  unfolding create_request_http [OF assms(1)]
    url_Parse_roles_clean(1) [OF assms(3) assms(2) assms(4) assms(5)]
    url_Parse_roles_clean(2) [OF assms(3) assms(2) assms(4) assms(5)]
  by simp_all

lemma example_stray_question_mark:
  "RoleCreateRequest_request (examplePackage\<lparr>newRequest := http_NewRequest\<rparr>) (zeroRequest ''x?'') None =
     Inr \<lparr>Method = ''PUT'',
          URL = \<lparr>Path = ''/_plugins/_security/api/roles/x'', RawQuery = [], ForceQuery = True\<rparr>,
          Body = None, Header = [], ctx = None\<rparr>"
proof -
  have n: "newRequest (examplePackage\<lparr>newRequest := http_NewRequest\<rparr>) = http_NewRequest"
    by simp
  have p: "url_Parse (''/_plugins/_security/api/roles/'' @ Role (zeroRequest ''x?'')) =
             Inr \<lparr>Path = ''/_plugins/_security/api/roles/x'', RawQuery = [], ForceQuery = True\<rparr>"
    by (simp add: zeroRequest_def url_Parse_def Cut_def stringContainsCTLByte_def)
  have z: "collectParams (examplePackage\<lparr>newRequest := http_NewRequest\<rparr>) (zeroRequest ''x?'') = []"
    by (simp add: collectParams_def zeroRequest_def)
  show ?thesis
    unfolding create_request_http [OF n] p z
    by (simp add: encodeParams_Nil setContentType_def mergeHeader_def bindContext_def zeroRequest_def entriesOf_def)
qed

lemma zero_fields_keep_URL:
  "(MasterTimeout r = 0 \<and> ClusterManagerTimeout r = 0 \<and> Timeout r = 0 \<and> WaitForActiveShards r = [] \<and>
    \<not> Pretty r \<and> \<not> Human r \<and> \<not> ErrorTrace r \<and> FilterPath r = [] \<longrightarrow>
      collectParams P r = [] \<and>
      (newRequest P ''PUT'' (''/_plugins/_security/api/roles/'' @ Role r) (RoleCreateRequest.Body r) = Inr req \<longrightarrow>
         (\<exists>req'. RoleCreateRequest_request P r c = Inr req' \<and> URL req' = URL req \<and>
                 (RawQuery (URL req) = [] \<longrightarrow> RawQuery (URL req') = []))) \<and>
      (newRequest P ''PUT'' (''/_plugins/_security/api/rolesmapping/'' @ Role r) (RoleCreateRequest.Body r) = Inr req \<longrightarrow>
         (\<exists>req'. RoleMappingCreateRequest_request P r c = Inr req' \<and> URL req' = URL req \<and>
                 (RawQuery (URL req) = [] \<longrightarrow> RawQuery (URL req') = [])))) \<and>
   (MasterTimeout r = 0 \<longrightarrow> ''master_timeout'' \<notin> fst ` set (collectParams P r) \<and>
      setParams (collectParams P r) q ''master_timeout'' = q ''master_timeout'') \<and>
   (ClusterManagerTimeout r = 0 \<longrightarrow> ''cluster_manager_timeout'' \<notin> fst ` set (collectParams P r) \<and>
      setParams (collectParams P r) q ''cluster_manager_timeout'' = q ''cluster_manager_timeout'') \<and>
   (Timeout r = 0 \<longrightarrow> ''timeout'' \<notin> fst ` set (collectParams P r) \<and>
      setParams (collectParams P r) q ''timeout'' = q ''timeout'') \<and>
   (WaitForActiveShards r = [] \<longrightarrow> ''wait_for_active_shards'' \<notin> fst ` set (collectParams P r) \<and>
      setParams (collectParams P r) q ''wait_for_active_shards'' = q ''wait_for_active_shards'') \<and>
   (\<not> Pretty r \<longrightarrow> ''pretty'' \<notin> fst ` set (collectParams P r) \<and>
      setParams (collectParams P r) q ''pretty'' = q ''pretty'') \<and>
   (\<not> Human r \<longrightarrow> ''human'' \<notin> fst ` set (collectParams P r) \<and>
      setParams (collectParams P r) q ''human'' = q ''human'') \<and>
   (\<not> ErrorTrace r \<longrightarrow> ''error_trace'' \<notin> fst ` set (collectParams P r) \<and>
      setParams (collectParams P r) q ''error_trace'' = q ''error_trace'') \<and>
   (FilterPath r = [] \<longrightarrow> ''filter_path'' \<notin> fst ` set (collectParams P r) \<and>
      setParams (collectParams P r) q ''filter_path'' = q ''filter_path'')"
proof -
  have zero: "MasterTimeout r = 0 \<and> ClusterManagerTimeout r = 0 \<and> Timeout r = 0 \<and> WaitForActiveShards r = [] \<and>
    \<not> Pretty r \<and> \<not> Human r \<and> \<not> ErrorTrace r \<and> FilterPath r = [] \<longrightarrow>
      collectParams P r = [] \<and>
      (newRequest P ''PUT'' (''/_plugins/_security/api/roles/'' @ Role r) (RoleCreateRequest.Body r) = Inr req \<longrightarrow>
         (\<exists>req'. RoleCreateRequest_request P r c = Inr req' \<and> URL req' = URL req \<and>
                 (RawQuery (URL req) = [] \<longrightarrow> RawQuery (URL req') = []))) \<and>
      (newRequest P ''PUT'' (''/_plugins/_security/api/rolesmapping/'' @ Role r) (RoleCreateRequest.Body r) = Inr req \<longrightarrow>
         (\<exists>req'. RoleMappingCreateRequest_request P r c = Inr req' \<and> URL req' = URL req \<and>
                 (RawQuery (URL req) = [] \<longrightarrow> RawQuery (URL req') = [])))"
  proof (intro impI)
    assume z: "MasterTimeout r = 0 \<and> ClusterManagerTimeout r = 0 \<and> Timeout r = 0 \<and> WaitForActiveShards r = [] \<and>
      \<not> Pretty r \<and> \<not> Human r \<and> \<not> ErrorTrace r \<and> FilterPath r = []"
    then have n: "collectParams P r = []"
      by (simp add: collectParams_Nil_iff)
    show "collectParams P r = [] \<and>
      (newRequest P ''PUT'' (''/_plugins/_security/api/roles/'' @ Role r) (RoleCreateRequest.Body r) = Inr req \<longrightarrow>
         (\<exists>req'. RoleCreateRequest_request P r c = Inr req' \<and> URL req' = URL req \<and>
                 (RawQuery (URL req) = [] \<longrightarrow> RawQuery (URL req') = []))) \<and>
      (newRequest P ''PUT'' (''/_plugins/_security/api/rolesmapping/'' @ Role r) (RoleCreateRequest.Body r) = Inr req \<longrightarrow>
         (\<exists>req'. RoleMappingCreateRequest_request P r c = Inr req' \<and> URL req' = URL req \<and>
                 (RawQuery (URL req) = [] \<longrightarrow> RawQuery (URL req') = [])))"
      by (simp add: n create_requests encodeParams_Nil URL_bindContext URL_mergeHeader URL_setContentType)
  qed
  have k1: "MasterTimeout r = 0 \<longrightarrow> ''master_timeout'' \<notin> fst ` set (collectParams P r) \<and>
      setParams (collectParams P r) q ''master_timeout'' = q ''master_timeout''"
    by (simp add: lookup_master) (simp add: collectParams_key_iff)
  have k2: "ClusterManagerTimeout r = 0 \<longrightarrow> ''cluster_manager_timeout'' \<notin> fst ` set (collectParams P r) \<and>
      setParams (collectParams P r) q ''cluster_manager_timeout'' = q ''cluster_manager_timeout''"
    by (simp add: lookup_cluster) (simp add: collectParams_key_iff)
  have k3: "Timeout r = 0 \<longrightarrow> ''timeout'' \<notin> fst ` set (collectParams P r) \<and>
      setParams (collectParams P r) q ''timeout'' = q ''timeout''"
    by (simp add: lookup_timeout) (simp add: collectParams_key_iff)
  have k4: "WaitForActiveShards r = [] \<longrightarrow> ''wait_for_active_shards'' \<notin> fst ` set (collectParams P r) \<and>
      setParams (collectParams P r) q ''wait_for_active_shards'' = q ''wait_for_active_shards''"
    by (simp add: lookup_shards) (simp add: collectParams_key_iff)
  have k5: "\<not> Pretty r \<longrightarrow> ''pretty'' \<notin> fst ` set (collectParams P r) \<and>
      setParams (collectParams P r) q ''pretty'' = q ''pretty''"
    by (simp add: lookup_pretty) (simp add: collectParams_key_iff)
  have k6: "\<not> Human r \<longrightarrow> ''human'' \<notin> fst ` set (collectParams P r) \<and>
      setParams (collectParams P r) q ''human'' = q ''human''"
    by (simp add: lookup_human) (simp add: collectParams_key_iff)
  have k7: "\<not> ErrorTrace r \<longrightarrow> ''error_trace'' \<notin> fst ` set (collectParams P r) \<and>
      setParams (collectParams P r) q ''error_trace'' = q ''error_trace''"
    by (simp add: lookup_error_trace) (simp add: collectParams_key_iff)
  have k8: "FilterPath r = [] \<longrightarrow> ''filter_path'' \<notin> fst ` set (collectParams P r) \<and>
      setParams (collectParams P r) q ''filter_path'' = q ''filter_path''"
    by (simp add: lookup_filter_path) (simp add: collectParams_key_iff)
  from zero k1 k2 k3 k4 k5 k6 k7 k8 show ?thesis by blast
qed

section \<open>The claims\<close>

text \<open>
  C2, as the spec states it: for every identifier, the path of the request that the role
  create builds is the prefix followed by the identifier. The identifier is not escaped, so
  it reaches the request constructor as it is, and the constructor reads a \<^verbatim>\<open>?\<close> in it as the
  start of the query: for the identifier \<^verbatim>\<open>a?b\<close> the path of the request ends in \<^verbatim>\<open>/roles/a\<close> and
  \<^verbatim>\<open>b\<close> is its raw query.
\<close>

theorem RoleCreate_path_of_id_with_question_mark:
  "RoleCreateRequest_request (examplePackage\<lparr>newRequest := http_NewRequest\<rparr>) (zeroRequest ''a?b'') None =
     Inr \<lparr>Method = ''PUT'',
          URL = \<lparr>Path = ''/_plugins/_security/api/roles/a'', RawQuery = ''b'', ForceQuery = False\<rparr>,
          Body = None, Header = [], ctx = None\<rparr> \<and>
   ''/_plugins/_security/api/roles/a'' \<noteq> ''/_plugins/_security/api/roles/'' @ Role (zeroRequest ''a?b'')"
proof -
  have n: "newRequest (examplePackage\<lparr>newRequest := http_NewRequest\<rparr>) = http_NewRequest"
    by simp
  have p: "url_Parse (''/_plugins/_security/api/roles/'' @ Role (zeroRequest ''a?b'')) =
             Inr \<lparr>Path = ''/_plugins/_security/api/roles/a'', RawQuery = ''b'', ForceQuery = False\<rparr>"
    by (simp add: zeroRequest_def url_Parse_def Cut_def stringContainsCTLByte_def)
  have z: "collectParams (examplePackage\<lparr>newRequest := http_NewRequest\<rparr>) (zeroRequest ''a?b'') = []"
    by (simp add: collectParams_def zeroRequest_def)
  have d: "''/_plugins/_security/api/roles/a'' \<noteq> ''/_plugins/_security/api/roles/'' @ Role (zeroRequest ''a?b'')"
    by (simp add: zeroRequest_def)
  have "RoleCreateRequest_request (examplePackage\<lparr>newRequest := http_NewRequest\<rparr>) (zeroRequest ''a?b'') None =
     Inr \<lparr>Method = ''PUT'',
          URL = \<lparr>Path = ''/_plugins/_security/api/roles/a'', RawQuery = ''b'', ForceQuery = False\<rparr>,
          Body = None, Header = [], ctx = None\<rparr>"
    unfolding create_request_http [OF n] p z
    by (simp add: encodeParams_Nil setContentType_def mergeHeader_def bindContext_def zeroRequest_def entriesOf_def)
  with d show ?thesis by simp
qed

text \<open>
  C2, amended. For every identifier, the empty one too, the string that
  \<^verbatim>\<open>RoleCreateRequest.Do\<close> builds is the prefix \<^verbatim>\<open>/_plugins/_security/api/roles/\<close> followed by the
  identifier as it is: the 30 bytes of the prefix, then the identifier once, nothing
  escaped, trimmed or checked. \<^verbatim>\<open>Do\<close> hands this string to \<^verbatim>\<open>newRequest\<close> with the method \<^verbatim>\<open>PUT\<close>
  and the body; when \<^verbatim>\<open>newRequest\<close> fails, so does \<^verbatim>\<open>Do\<close>; otherwise the request for the transport
  keeps the path and the method that \<^verbatim>\<open>newRequest\<close> gave it. With the request constructor of
  the standard library, for every identifier without \<^verbatim>\<open>?\<close>, \<^verbatim>\<open>#\<close>, \<^verbatim>\<open>%\<close> and control bytes the
  request is built, its method is \<^verbatim>\<open>PUT\<close> and its path is the prefix followed by the identifier.
\<close>

theorem RoleCreate_path_is_prefix_then_plain_id:
  "RoleCreateRequest_path r = ''/_plugins/_security/api/roles/'' @ Role r \<and>
   length (RoleCreateRequest_path r) = 30 + length (Role r) \<and>
   RoleCreateRequest_path (zeroRequest []) = ''/_plugins/_security/api/roles/'' \<and>
   (case newRequest P ''PUT'' (''/_plugins/_security/api/roles/'' @ Role r) (RoleCreateRequest.Body r) of
      Inl err \<Rightarrow> RoleCreateRequest_request P r c = Inl err
    | Inr req \<Rightarrow> (\<exists>req'. RoleCreateRequest_request P r c = Inr req' \<and>
                     Path (URL req') = Path (URL req) \<and> Method req' = Method req)) \<and>
   (newRequest P = http_NewRequest \<and> CHR ''?'' \<notin> set (Role r) \<and> CHR ''#'' \<notin> set (Role r) \<and>
    CHR ''%'' \<notin> set (Role r) \<and> \<not> stringContainsCTLByte (Role r) \<longrightarrow>
      (\<exists>req'. RoleCreateRequest_request P r c = Inr req' \<and>
              Path (URL req') = ''/_plugins/_security/api/roles/'' @ Role r \<and>
              Method req' = ''PUT''))"
proof -
  have old: "RoleCreateRequest_path r = ''/_plugins/_security/api/roles/'' @ Role r \<and>
   length (RoleCreateRequest_path r) = 30 + length (Role r) \<and>
   RoleCreateRequest_path (zeroRequest []) = ''/_plugins/_security/api/roles/'' \<and>
   (case newRequest P ''PUT'' (''/_plugins/_security/api/roles/'' @ Role r) (RoleCreateRequest.Body r) of
      Inl err \<Rightarrow> RoleCreateRequest_request P r c = Inl err
    | Inr req \<Rightarrow> (\<exists>req'. RoleCreateRequest_request P r c = Inr req' \<and>
                     Path (URL req') = Path (URL req) \<and> Method req' = Method req))"
    by (simp add: paths RoleCreateRequest_request_def zeroRequest_def URL_bindContext URL_mergeHeader
      URL_setContentType Path_encodeParams Method_bindContext Method_mergeHeader Method_setContentType
      Method_encodeParams split: sum.splits)
  have new: "newRequest P = http_NewRequest \<and> CHR ''?'' \<notin> set (Role r) \<and> CHR ''#'' \<notin> set (Role r) \<and>
    CHR ''%'' \<notin> set (Role r) \<and> \<not> stringContainsCTLByte (Role r) \<longrightarrow>
      (\<exists>req'. RoleCreateRequest_request P r c = Inr req' \<and>
              Path (URL req') = ''/_plugins/_security/api/roles/'' @ Role r \<and>
              Method req' = ''PUT'')"
  proof (intro impI)
    assume a: "newRequest P = http_NewRequest \<and> CHR ''?'' \<notin> set (Role r) \<and> CHR ''#'' \<notin> set (Role r) \<and>
      CHR ''%'' \<notin> set (Role r) \<and> \<not> stringContainsCTLByte (Role r)"
    then have p: "url_Parse (''/_plugins/_security/api/roles/'' @ Role r) =
        Inr \<lparr>Path = ''/_plugins/_security/api/roles/'' @ Role r, RawQuery = [], ForceQuery = False\<rparr>"
      using url_Parse_roles_clean(1) [of "Role r"] by blast
    from a have n: "newRequest P = http_NewRequest" by simp
    show "\<exists>req'. RoleCreateRequest_request P r c = Inr req' \<and>
              Path (URL req') = ''/_plugins/_security/api/roles/'' @ Role r \<and> Method req' = ''PUT''"
      unfolding create_request_http [OF n] p by (simp add: URL_decorated Method_decorated)
  qed
  from old new show ?thesis by blast
qed

theorem RoleCreate_path_is_prefix_then_plain_id_witness:
  "newRequest (examplePackage\<lparr>newRequest := http_NewRequest\<rparr>) = http_NewRequest \<and>
   CHR ''?'' \<notin> set (Role (zeroRequest ''readall'')) \<and> CHR ''#'' \<notin> set (Role (zeroRequest ''readall'')) \<and>
   CHR ''%'' \<notin> set (Role (zeroRequest ''readall'')) \<and> \<not> stringContainsCTLByte (Role (zeroRequest ''readall'')) \<and>
   (\<exists>req'. RoleCreateRequest_request (examplePackage\<lparr>newRequest := http_NewRequest\<rparr>)
             (zeroRequest ''readall'') None = Inr req' \<and>
           Path (URL req') = ''/_plugins/_security/api/roles/readall'' \<and> Method req' = ''PUT'')"
proof -
  let ?P = "examplePackage\<lparr>newRequest := http_NewRequest\<rparr>"
  let ?r = "zeroRequest ''readall''"
  have h: "newRequest ?P = http_NewRequest \<and> CHR ''?'' \<notin> set (Role ?r) \<and> CHR ''#'' \<notin> set (Role ?r) \<and>
           CHR ''%'' \<notin> set (Role ?r) \<and> \<not> stringContainsCTLByte (Role ?r)"
    by (simp add: zeroRequest_def stringContainsCTLByte_def)
  have r: "Role ?r = ''readall''"
    by (simp add: zeroRequest_def)
  from RoleCreate_path_is_prefix_then_plain_id [of ?r ?P None] h
  have "\<exists>req'. RoleCreateRequest_request ?P ?r None = Inr req' \<and>
          Path (URL req') = ''/_plugins/_security/api/roles/'' @ Role ?r \<and> Method req' = ''PUT''"
    by blast
  then have "\<exists>req'. RoleCreateRequest_request ?P ?r None = Inr req' \<and>
          Path (URL req') = ''/_plugins/_security/api/roles/readall'' \<and> Method req' = ''PUT''"
    by (simp add: r)
  with h show ?thesis by blast
qed

text \<open>
  C1. A role-mapping delete call for role \<^verbatim>\<open>readall\<close> with the option \<^verbatim>\<open>WithTimeout\<close> of five
  seconds asks \<^verbatim>\<open>newRequest\<close> for method \<^verbatim>\<open>DELETE\<close>, path
  \<^verbatim>\<open>/_plugins/_security/api/rolesmapping/readall\<close> and no body, and hands the transport that
  request as it is: the call is the same as the call with no option. For every
  configuration, the request of the delete \<^verbatim>\<open>Do\<close> is the request of the configuration with
  all eight query-parameter fields zero, so none of them is serialized. With the example
  package the transport receives method \<^verbatim>\<open>DELETE\<close>, that path and an empty raw query.
\<close>

theorem RoleMappingDelete_readall_timeout_not_serialized:
  "newRoleMappingDeleteFunc P t ''readall'' [WithTimeout 5000000000] w =
     (case newRequest P ''DELETE'' ''/_plugins/_security/api/rolesmapping/readall'' None of
        Inl err \<Rightarrow> (Inl err, w)
      | Inr req \<Rightarrow> perform t req w) \<and>
   newRoleMappingDeleteFunc P t ''readall'' [WithTimeout 5000000000] w =
     newRoleMappingDeleteFunc P t ''readall'' [] w \<and>
   RoleMappingDeleteRequest_request P r c =
     RoleMappingDeleteRequest_request P
       (r\<lparr>Timeout := 0, MasterTimeout := 0, ClusterManagerTimeout := 0, WaitForActiveShards := [],
          Pretty := False, Human := False, ErrorTrace := False, FilterPath := []\<rparr>) c \<and>
   snd (newRoleMappingDeleteFunc examplePackage okTransport ''readall'' [WithTimeout 5000000000] []) =
     [\<lparr>Method = ''DELETE'',
       URL = \<lparr>Path = ''/_plugins/_security/api/rolesmapping/readall'', RawQuery = [], ForceQuery = False\<rparr>,
       Body = None, Header = [], ctx = None\<rparr>]"
  by (simp add: newRoleMappingDeleteFunc_def applyOptions_def WithTimeout_def zeroRequest_def
     RoleMappingDeleteRequest_Do_def RoleMappingDeleteRequest_request_def paths examplePackage_def
     exampleNewRequest_def bindContext_def perform_def okTransport_def split: sum.splits)

text \<open>
  C10. For the role delete and the role-mapping delete, two configurations with the same
  \<^verbatim>\<open>Role\<close> and the same \<^verbatim>\<open>ctx\<close> give the same request and the same result of \<^verbatim>\<open>Do\<close>, whatever
  their body, headers and query-parameter fields are. The request is the one \<^verbatim>\<open>newRequest\<close>
  built for \<^verbatim>\<open>DELETE\<close>, the path and a \<^verbatim>\<open>nil\<close> body, with the context bound: binding the context
  changes neither its headers nor its body, and \<^verbatim>\<open>WithOpaqueID\<close> changes nothing in it.
\<close>

theorem delete_request_depends_on_Role_and_ctx_only:
  assumes "Role r = Role r'" and "RoleCreateRequest.ctx r = RoleCreateRequest.ctx r'"
  shows "RoleDeleteRequest_request P r (RoleCreateRequest.ctx r) =
           RoleDeleteRequest_request P r' (RoleCreateRequest.ctx r') \<and>
         RoleMappingDeleteRequest_request P r (RoleCreateRequest.ctx r) =
           RoleMappingDeleteRequest_request P r' (RoleCreateRequest.ctx r') \<and>
         RoleDeleteRequest_Do P r (RoleCreateRequest.ctx r) t w =
           RoleDeleteRequest_Do P r' (RoleCreateRequest.ctx r') t w \<and>
         RoleMappingDeleteRequest_Do P r (RoleCreateRequest.ctx r) t w =
           RoleMappingDeleteRequest_Do P r' (RoleCreateRequest.ctx r') t w \<and>
         RoleDeleteRequest_request P r c =
           (case newRequest P ''DELETE'' (''/_plugins/_security/api/roles/'' @ Role r) None of
              Inl err \<Rightarrow> Inl err | Inr req \<Rightarrow> Inr (bindContext c req)) \<and>
         RoleMappingDeleteRequest_request P r c =
           (case newRequest P ''DELETE'' (''/_plugins/_security/api/rolesmapping/'' @ Role r) None of
              Inl err \<Rightarrow> Inl err | Inr req \<Rightarrow> Inr (bindContext c req)) \<and>
         http_Request.Header (bindContext c req) = http_Request.Header req \<and>
         http_Request.Body (bindContext c req) = http_Request.Body req \<and>
         RoleDeleteRequest_request P (WithOpaqueID s r) c = RoleDeleteRequest_request P r c \<and>
         RoleMappingDeleteRequest_request P (WithOpaqueID s r) c = RoleMappingDeleteRequest_request P r c"
  using assms
  by (simp add: delete_requests RoleDeleteRequest_Do_def RoleMappingDeleteRequest_Do_def
      Role_WithOpaqueID Header_bindContext Body_bindContext)

theorem delete_request_depends_on_Role_and_ctx_only_witness:
  "Role (zeroRequest ''readall'') =
     Role (WithOpaqueID ''trace-1'' (WithHeader [(''X'', ''1'')] (WithBody (Some ''{}'')
            (WithPretty (WithTimeout 5000000000 (zeroRequest ''readall'')))))) \<and>
   RoleCreateRequest.ctx (zeroRequest ''readall'') =
     RoleCreateRequest.ctx (WithOpaqueID ''trace-1'' (WithHeader [(''X'', ''1'')] (WithBody (Some ''{}'')
            (WithPretty (WithTimeout 5000000000 (zeroRequest ''readall'')))))) \<and>
   RoleDeleteRequest_request examplePackage
     (WithOpaqueID ''trace-1'' (WithHeader [(''X'', ''1'')] (WithBody (Some ''{}'')
            (WithPretty (WithTimeout 5000000000 (zeroRequest ''readall'')))))) None =
     Inr \<lparr>Method = ''DELETE'', URL = \<lparr>Path = ''/_plugins/_security/api/roles/readall'', RawQuery = [], ForceQuery = False\<rparr>,
          Body = None, Header = [], ctx = None\<rparr>"
proof -
  let ?r' = "WithOpaqueID ''trace-1'' (WithHeader [(''X'', ''1'')] (WithBody (Some ''{}'')
            (WithPretty (WithTimeout 5000000000 (zeroRequest ''readall'')))))"
  have a: "Role (zeroRequest ''readall'') = Role ?r'"
    by (simp add: zeroRequest_def WithOpaqueID_def WithHeader_def WithBody_def WithPretty_def WithTimeout_def)
  have b: "RoleCreateRequest.ctx (zeroRequest ''readall'') = RoleCreateRequest.ctx ?r'"
    by (simp add: zeroRequest_def WithOpaqueID_def WithHeader_def WithBody_def WithPretty_def WithTimeout_def)
  have z: "RoleCreateRequest.ctx (zeroRequest ''readall'') = None"
    by (simp add: zeroRequest_def)
  have "RoleDeleteRequest_request examplePackage (zeroRequest ''readall'') (RoleCreateRequest.ctx (zeroRequest ''readall'')) =
        RoleDeleteRequest_request examplePackage ?r' (RoleCreateRequest.ctx ?r')"
    using delete_request_depends_on_Role_and_ctx_only [OF a b, of examplePackage] by (rule conjunct1)
  moreover have "RoleDeleteRequest_request examplePackage (zeroRequest ''readall'') None =
     Inr \<lparr>Method = ''DELETE'', URL = \<lparr>Path = ''/_plugins/_security/api/roles/readall'', RawQuery = [], ForceQuery = False\<rparr>,
          Body = None, Header = [], ctx = None\<rparr>"
    by (simp add: delete_requests zeroRequest_def examplePackage_def exampleNewRequest_def bindContext_def)
  ultimately show ?thesis using a b z by simp
qed

text \<open>
  C6. For each of the four operations: when the transport, given the request that \<^verbatim>\<open>Do\<close>
  built, returns an error, \<^verbatim>\<open>Do\<close> and the endpoint call return that very error and no
  \<^verbatim>\<open>Response\<close>, and the world is as that one call of the transport left it.
\<close>

theorem transport_error_returned_unchanged:
  assumes "t req w = (Inl e, w')"
  shows "(RoleCreateRequest_request P r c = Inr req \<longrightarrow> RoleCreateRequest_Do P r c t w = (Inl e, w')) \<and>
         (RoleMappingCreateRequest_request P r c = Inr req \<longrightarrow>
            RoleMappingCreateRequest_Do P r c t w = (Inl e, w')) \<and>
         (RoleDeleteRequest_request P r c = Inr req \<longrightarrow> RoleDeleteRequest_Do P r c t w = (Inl e, w')) \<and>
         (RoleMappingDeleteRequest_request P r c = Inr req \<longrightarrow>
            RoleMappingDeleteRequest_Do P r c t w = (Inl e, w')) \<and>
         (RoleCreateRequest_request P (applyOptions opts (zeroRequest role))
              (RoleCreateRequest.ctx (applyOptions opts (zeroRequest role))) = Inr req \<longrightarrow>
            newRoleCreateFunc P t role opts w = (Inl e, w')) \<and>
         (RoleMappingCreateRequest_request P (applyOptions opts (zeroRequest role))
              (RoleCreateRequest.ctx (applyOptions opts (zeroRequest role))) = Inr req \<longrightarrow>
            newRoleMappingCreateFunc P t role opts w = (Inl e, w')) \<and>
         (RoleDeleteRequest_request P (applyOptions opts (zeroRequest role))
              (RoleCreateRequest.ctx (applyOptions opts (zeroRequest role))) = Inr req \<longrightarrow>
            newRoleDeleteFunc P t role opts w = (Inl e, w')) \<and>
         (RoleMappingDeleteRequest_request P (applyOptions opts (zeroRequest role))
              (RoleCreateRequest.ctx (applyOptions opts (zeroRequest role))) = Inr req \<longrightarrow>
            newRoleMappingDeleteFunc P t role opts w = (Inl e, w'))"
  using assms
  by (simp add: perform_error RoleCreateRequest_Do_def RoleMappingCreateRequest_Do_def RoleDeleteRequest_Do_def
      RoleMappingDeleteRequest_Do_def newRoleCreateFunc_def newRoleMappingCreateFunc_def
      newRoleDeleteFunc_def newRoleMappingDeleteFunc_def)

theorem transport_error_returned_unchanged_witness:
  "failingTransport
     \<lparr>Method = ''PUT'', URL = \<lparr>Path = ''/_plugins/_security/api/roles/readall'', RawQuery = [], ForceQuery = False\<rparr>,
      Body = None, Header = [], ctx = None\<rparr> [] =
     (Inl (Error ''connection refused''),
      [\<lparr>Method = ''PUT'', URL = \<lparr>Path = ''/_plugins/_security/api/roles/readall'', RawQuery = [], ForceQuery = False\<rparr>,
        Body = None, Header = [], ctx = None\<rparr>]) \<and>
   newRoleCreateFunc examplePackage failingTransport ''readall'' [] [] =
     (Inl (Error ''connection refused''),
      [\<lparr>Method = ''PUT'', URL = \<lparr>Path = ''/_plugins/_security/api/roles/readall'', RawQuery = [], ForceQuery = False\<rparr>,
        Body = None, Header = [], ctx = None\<rparr>])"
proof -
  let ?req = "\<lparr>Method = ''PUT'', URL = \<lparr>Path = ''/_plugins/_security/api/roles/readall'', RawQuery = [], ForceQuery = False\<rparr>,
      Body = None, Header = [], ctx = None\<rparr>"
  have f: "failingTransport ?req [] = (Inl (Error ''connection refused''), [?req])"
    by (simp add: failingTransport_def)
  from transport_error_returned_unchanged [where t = failingTransport and req = ?req and w = "[]"
      and e = "Error ''connection refused''" and w' = "[?req]" and P = examplePackage
      and opts = "[]" and role = "''readall''"] f
  have "newRoleCreateFunc examplePackage failingTransport ''readall'' [] [] =
          (Inl (Error ''connection refused''), [?req])"
    using example_create_readall by blast
  with f show ?thesis by simp
qed

text \<open>
  C7. For each of the four operations: when \<^verbatim>\<open>newRequest\<close> returns an error, \<^verbatim>\<open>Do\<close> returns that
  error and no \<^verbatim>\<open>Response\<close>, and the world is untouched whatever the transport is, so the
  transport was not called. When \<^verbatim>\<open>Do\<close> returns an error, it is either the error of
  \<^verbatim>\<open>newRequest\<close> or the error the transport returned for the request built: there is no
  third error path.
\<close>

theorem newRequest_error_aborts_before_transport:
  "(newRequest P ''PUT'' (''/_plugins/_security/api/roles/'' @ Role r) (RoleCreateRequest.Body r) = Inl e \<longrightarrow>
      RoleCreateRequest_Do P r c t w = (Inl e, w)) \<and>
   (newRequest P ''PUT'' (''/_plugins/_security/api/rolesmapping/'' @ Role r) (RoleCreateRequest.Body r) = Inl e \<longrightarrow>
      RoleMappingCreateRequest_Do P r c t w = (Inl e, w)) \<and>
   (newRequest P ''DELETE'' (''/_plugins/_security/api/roles/'' @ Role r) None = Inl e \<longrightarrow>
      RoleDeleteRequest_Do P r c t w = (Inl e, w)) \<and>
   (newRequest P ''DELETE'' (''/_plugins/_security/api/rolesmapping/'' @ Role r) None = Inl e \<longrightarrow>
      RoleMappingDeleteRequest_Do P r c t w = (Inl e, w)) \<and>
   (RoleCreateRequest_Do P r c t w = (Inl e, w') \<longrightarrow>
      (newRequest P ''PUT'' (''/_plugins/_security/api/roles/'' @ Role r) (RoleCreateRequest.Body r) = Inl e \<and> w' = w) \<or>
      (\<exists>req. RoleCreateRequest_request P r c = Inr req \<and> t req w = (Inl e, w'))) \<and>
   (RoleMappingCreateRequest_Do P r c t w = (Inl e, w') \<longrightarrow>
      (newRequest P ''PUT'' (''/_plugins/_security/api/rolesmapping/'' @ Role r) (RoleCreateRequest.Body r) = Inl e \<and> w' = w) \<or>
      (\<exists>req. RoleMappingCreateRequest_request P r c = Inr req \<and> t req w = (Inl e, w'))) \<and>
   (RoleDeleteRequest_Do P r c t w = (Inl e, w') \<longrightarrow>
      (newRequest P ''DELETE'' (''/_plugins/_security/api/roles/'' @ Role r) None = Inl e \<and> w' = w) \<or>
      (\<exists>req. RoleDeleteRequest_request P r c = Inr req \<and> t req w = (Inl e, w'))) \<and>
   (RoleMappingDeleteRequest_Do P r c t w = (Inl e, w') \<longrightarrow>
      (newRequest P ''DELETE'' (''/_plugins/_security/api/rolesmapping/'' @ Role r) None = Inl e \<and> w' = w) \<or>
      (\<exists>req. RoleMappingDeleteRequest_request P r c = Inr req \<and> t req w = (Inl e, w')))"
proof -
  have c1: "newRequest P ''PUT'' (''/_plugins/_security/api/roles/'' @ Role r) (RoleCreateRequest.Body r) = Inl e \<longrightarrow>
      RoleCreateRequest_Do P r c t w = (Inl e, w)"
    by (simp add: RoleCreateRequest_Do_def create_requests)
  have c2: "newRequest P ''PUT'' (''/_plugins/_security/api/rolesmapping/'' @ Role r) (RoleCreateRequest.Body r) = Inl e \<longrightarrow>
      RoleMappingCreateRequest_Do P r c t w = (Inl e, w)"
    by (simp add: RoleMappingCreateRequest_Do_def create_requests)
  have c3: "newRequest P ''DELETE'' (''/_plugins/_security/api/roles/'' @ Role r) None = Inl e \<longrightarrow>
      RoleDeleteRequest_Do P r c t w = (Inl e, w)"
    by (simp add: RoleDeleteRequest_Do_def delete_requests)
  have c4: "newRequest P ''DELETE'' (''/_plugins/_security/api/rolesmapping/'' @ Role r) None = Inl e \<longrightarrow>
      RoleMappingDeleteRequest_Do P r c t w = (Inl e, w)"
    by (simp add: RoleMappingDeleteRequest_Do_def delete_requests)
  have c5: "RoleCreateRequest_Do P r c t w = (Inl e, w') \<longrightarrow>
      (newRequest P ''PUT'' (''/_plugins/_security/api/roles/'' @ Role r) (RoleCreateRequest.Body r) = Inl e \<and> w' = w) \<or>
      (\<exists>req. RoleCreateRequest_request P r c = Inr req \<and> t req w = (Inl e, w'))"
    by (auto simp: RoleCreateRequest_Do_def create_requests perform_Inl_iff split: sum.splits)
  have c6: "RoleMappingCreateRequest_Do P r c t w = (Inl e, w') \<longrightarrow>
      (newRequest P ''PUT'' (''/_plugins/_security/api/rolesmapping/'' @ Role r) (RoleCreateRequest.Body r) = Inl e \<and> w' = w) \<or>
      (\<exists>req. RoleMappingCreateRequest_request P r c = Inr req \<and> t req w = (Inl e, w'))"
    by (auto simp: RoleMappingCreateRequest_Do_def create_requests perform_Inl_iff split: sum.splits)
  have c7: "RoleDeleteRequest_Do P r c t w = (Inl e, w') \<longrightarrow>
      (newRequest P ''DELETE'' (''/_plugins/_security/api/roles/'' @ Role r) None = Inl e \<and> w' = w) \<or>
      (\<exists>req. RoleDeleteRequest_request P r c = Inr req \<and> t req w = (Inl e, w'))"
    by (auto simp: RoleDeleteRequest_Do_def delete_requests perform_Inl_iff split: sum.splits)
  have c8: "RoleMappingDeleteRequest_Do P r c t w = (Inl e, w') \<longrightarrow>
      (newRequest P ''DELETE'' (''/_plugins/_security/api/rolesmapping/'' @ Role r) None = Inl e \<and> w' = w) \<or>
      (\<exists>req. RoleMappingDeleteRequest_request P r c = Inr req \<and> t req w = (Inl e, w'))"
    by (auto simp: RoleMappingDeleteRequest_Do_def delete_requests perform_Inl_iff split: sum.splits)
  from c1 c2 c3 c4 c5 c6 c7 c8 show ?thesis by blast
qed

theorem newRequest_error_aborts_before_transport_witness:
  "newRequest (examplePackage\<lparr>newRequest := (\<lambda>m p b. Inl (Error ''bad request''))\<rparr>)
     ''PUT'' (''/_plugins/_security/api/roles/'' @ Role (zeroRequest ''readall''))
     (RoleCreateRequest.Body (zeroRequest ''readall'')) = Inl (Error ''bad request'') \<and>
   RoleCreateRequest_Do (examplePackage\<lparr>newRequest := (\<lambda>m p b. Inl (Error ''bad request''))\<rparr>)
     (zeroRequest ''readall'') None okTransport [] = (Inl (Error ''bad request''), [])"
proof -
  let ?P = "examplePackage\<lparr>newRequest := (\<lambda>m p b. Inl (Error ''bad request''))\<rparr>"
  have a: "newRequest ?P ''PUT'' (''/_plugins/_security/api/roles/'' @ Role (zeroRequest ''readall''))
     (RoleCreateRequest.Body (zeroRequest ''readall'')) = Inl (Error ''bad request'')"
    by simp
  from newRequest_error_aborts_before_transport [of ?P "zeroRequest ''readall''" "Error ''bad request''" None okTransport "[]"]
  have "RoleCreateRequest_Do ?P (zeroRequest ''readall'') None okTransport [] = (Inl (Error ''bad request''), [])"
    using a by blast
  with a show ?thesis by blast
qed

text \<open>
  C5, as the spec states it: when every optional query-parameter field is zero, the query
  string of the request is empty. The identifier is part of the string that the request
  constructor parses: with all fields zero and the identifier \<^verbatim>\<open>x?pretty=true\<close>, no parameter is
  collected and the raw query of the request is \<^verbatim>\<open>pretty=true\<close>.
\<close>

theorem zero_fields_but_query_in_id:
  "collectParams (examplePackage\<lparr>newRequest := http_NewRequest\<rparr>) (zeroRequest ''x?pretty=true'') = [] \<and>
   RoleCreateRequest_request (examplePackage\<lparr>newRequest := http_NewRequest\<rparr>)
     (zeroRequest ''x?pretty=true'') None =
     Inr \<lparr>Method = ''PUT'',
          URL = \<lparr>Path = ''/_plugins/_security/api/roles/x'', RawQuery = ''pretty=true'', ForceQuery = False\<rparr>,
          Body = None, Header = [], ctx = None\<rparr> \<and>
   ''pretty=true'' \<noteq> []"
proof -
  have n: "newRequest (examplePackage\<lparr>newRequest := http_NewRequest\<rparr>) = http_NewRequest"
    by simp
  have p: "url_Parse (''/_plugins/_security/api/roles/'' @ Role (zeroRequest ''x?pretty=true'')) =
             Inr \<lparr>Path = ''/_plugins/_security/api/roles/x'', RawQuery = ''pretty=true'', ForceQuery = False\<rparr>"
    by (simp add: zeroRequest_def url_Parse_def Cut_def stringContainsCTLByte_def)
  have z: "collectParams (examplePackage\<lparr>newRequest := http_NewRequest\<rparr>) (zeroRequest ''x?pretty=true'') = []"
    by (simp add: collectParams_def zeroRequest_def)
  have "RoleCreateRequest_request (examplePackage\<lparr>newRequest := http_NewRequest\<rparr>)
     (zeroRequest ''x?pretty=true'') None =
     Inr \<lparr>Method = ''PUT'',
          URL = \<lparr>Path = ''/_plugins/_security/api/roles/x'', RawQuery = ''pretty=true'', ForceQuery = False\<rparr>,
          Body = None, Header = [], ctx = None\<rparr>"
    unfolding create_request_http [OF n] p z
    by (simp add: encodeParams_Nil setContentType_def mergeHeader_def bindContext_def zeroRequest_def entriesOf_def)
  with z show ?thesis by simp
qed

text \<open>
  C5, amended. For the two create operations, with the request constructor of the standard
  library and an identifier without \<^verbatim>\<open>?\<close>: when the three durations are zero, the
  wait-for-active-shards string and the filter-path list are empty and the three flags are
  false, no parameter is collected and a request that is built has an empty raw query and
  no forced \<^verbatim>\<open>?\<close>; it is built when the identifier has no \<^verbatim>\<open>#\<close>, \<^verbatim>\<open>%\<close> and control byte either. For
  every configuration the raw query is empty or the encoding of the values set from
  \<^verbatim>\<open>params\<close>; a field that is zero gives no entry in \<^verbatim>\<open>params\<close>, and a key without an entry has no
  value there when the empty query parses to no values.
\<close>

theorem zero_fields_and_id_without_query_give_empty_query:
  assumes "newRequest P = http_NewRequest" and "CHR ''?'' \<notin> set (Role r)"
  shows
  "(MasterTimeout r = 0 \<and> ClusterManagerTimeout r = 0 \<and> Timeout r = 0 \<and> WaitForActiveShards r = [] \<and>
    \<not> Pretty r \<and> \<not> Human r \<and> \<not> ErrorTrace r \<and> FilterPath r = [] \<longrightarrow>
      collectParams P r = [] \<and>
      (RoleCreateRequest_request P r c = Inr req' \<longrightarrow> RawQuery (URL req') = [] \<and> \<not> ForceQuery (URL req')) \<and>
      (RoleMappingCreateRequest_request P r c = Inr req' \<longrightarrow>
         RawQuery (URL req') = [] \<and> \<not> ForceQuery (URL req')) \<and>
      (CHR ''#'' \<notin> set (Role r) \<and> CHR ''%'' \<notin> set (Role r) \<and> \<not> stringContainsCTLByte (Role r) \<longrightarrow>
         (\<exists>q. RoleCreateRequest_request P r c = Inr q \<and> RawQuery (URL q) = [] \<and> \<not> ForceQuery (URL q)) \<and>
         (\<exists>q. RoleMappingCreateRequest_request P r c = Inr q \<and> RawQuery (URL q) = [] \<and>
              \<not> ForceQuery (URL q)))) \<and>
   (RoleCreateRequest_request P r c = Inr req' \<or> RoleMappingCreateRequest_request P r c = Inr req' \<longrightarrow>
      \<not> ForceQuery (URL req') \<and>
      RawQuery (URL req') =
        (if collectParams P r = [] then []
         else Values_Encode P (setParams (collectParams P r) (url_Query P [])))) \<and>
   (url_Query P [] = Map.empty \<longrightarrow>
      (setParams (collectParams P r) (url_Query P []) k = None) = (k \<notin> fst ` set (collectParams P r))) \<and>
   (MasterTimeout r = 0 \<longrightarrow> ''master_timeout'' \<notin> fst ` set (collectParams P r)) \<and>
   (ClusterManagerTimeout r = 0 \<longrightarrow> ''cluster_manager_timeout'' \<notin> fst ` set (collectParams P r)) \<and>
   (Timeout r = 0 \<longrightarrow> ''timeout'' \<notin> fst ` set (collectParams P r)) \<and>
   (WaitForActiveShards r = [] \<longrightarrow> ''wait_for_active_shards'' \<notin> fst ` set (collectParams P r)) \<and>
   (\<not> Pretty r \<longrightarrow> ''pretty'' \<notin> fst ` set (collectParams P r)) \<and>
   (\<not> Human r \<longrightarrow> ''human'' \<notin> fst ` set (collectParams P r)) \<and>
   (\<not> ErrorTrace r \<longrightarrow> ''error_trace'' \<notin> fst ` set (collectParams P r)) \<and>
   (FilterPath r = [] \<longrightarrow> ''filter_path'' \<notin> fst ` set (collectParams P r))"
proof -
  note q1 = create_request_query(1) [OF assms, of c]
  note q2 = create_request_query(2) [OF assms, of c]
  have gen: "RoleCreateRequest_request P r c = Inr req' \<or> RoleMappingCreateRequest_request P r c = Inr req' \<longrightarrow>
      \<not> ForceQuery (URL req') \<and>
      RawQuery (URL req') =
        (if collectParams P r = [] then []
         else Values_Encode P (setParams (collectParams P r) (url_Query P [])))"
    using q1 [of req'] q2 [of req'] by blast
  have zero: "MasterTimeout r = 0 \<and> ClusterManagerTimeout r = 0 \<and> Timeout r = 0 \<and> WaitForActiveShards r = [] \<and>
    \<not> Pretty r \<and> \<not> Human r \<and> \<not> ErrorTrace r \<and> FilterPath r = [] \<longrightarrow>
      collectParams P r = [] \<and>
      (RoleCreateRequest_request P r c = Inr req' \<longrightarrow> RawQuery (URL req') = [] \<and> \<not> ForceQuery (URL req')) \<and>
      (RoleMappingCreateRequest_request P r c = Inr req' \<longrightarrow>
         RawQuery (URL req') = [] \<and> \<not> ForceQuery (URL req')) \<and>
      (CHR ''#'' \<notin> set (Role r) \<and> CHR ''%'' \<notin> set (Role r) \<and> \<not> stringContainsCTLByte (Role r) \<longrightarrow>
         (\<exists>q. RoleCreateRequest_request P r c = Inr q \<and> RawQuery (URL q) = [] \<and> \<not> ForceQuery (URL q)) \<and>
         (\<exists>q. RoleMappingCreateRequest_request P r c = Inr q \<and> RawQuery (URL q) = [] \<and>
              \<not> ForceQuery (URL q)))"
  proof (intro impI)
    assume z: "MasterTimeout r = 0 \<and> ClusterManagerTimeout r = 0 \<and> Timeout r = 0 \<and> WaitForActiveShards r = [] \<and>
      \<not> Pretty r \<and> \<not> Human r \<and> \<not> ErrorTrace r \<and> FilterPath r = []"
    then have n: "collectParams P r = []"
      by (simp add: collectParams_Nil_iff)
    have a: "RoleCreateRequest_request P r c = Inr req' \<longrightarrow> RawQuery (URL req') = [] \<and> \<not> ForceQuery (URL req')"
      using q1 [of req'] n by simp
    have b: "RoleMappingCreateRequest_request P r c = Inr req' \<longrightarrow>
         RawQuery (URL req') = [] \<and> \<not> ForceQuery (URL req')"
      using q2 [of req'] n by simp
    have e: "CHR ''#'' \<notin> set (Role r) \<and> CHR ''%'' \<notin> set (Role r) \<and> \<not> stringContainsCTLByte (Role r) \<longrightarrow>
         (\<exists>q. RoleCreateRequest_request P r c = Inr q \<and> RawQuery (URL q) = [] \<and> \<not> ForceQuery (URL q)) \<and>
         (\<exists>q. RoleMappingCreateRequest_request P r c = Inr q \<and> RawQuery (URL q) = [] \<and>
              \<not> ForceQuery (URL q))"
    proof (intro impI)
      assume cl: "CHR ''#'' \<notin> set (Role r) \<and> CHR ''%'' \<notin> set (Role r) \<and> \<not> stringContainsCTLByte (Role r)"
      from create_request_exists(1) [OF assms, of c] cl
      obtain x where x: "RoleCreateRequest_request P r c = Inr x" by blast
      from create_request_exists(2) [OF assms, of c] cl
      obtain y where y: "RoleMappingCreateRequest_request P r c = Inr y" by blast
      from q1 [OF x] q2 [OF y] n x y
      show "(\<exists>q. RoleCreateRequest_request P r c = Inr q \<and> RawQuery (URL q) = [] \<and> \<not> ForceQuery (URL q)) \<and>
         (\<exists>q. RoleMappingCreateRequest_request P r c = Inr q \<and> RawQuery (URL q) = [] \<and>
              \<not> ForceQuery (URL q))"
        by simp
    qed
    from n a b e show "collectParams P r = [] \<and>
      (RoleCreateRequest_request P r c = Inr req' \<longrightarrow> RawQuery (URL req') = [] \<and> \<not> ForceQuery (URL req')) \<and>
      (RoleMappingCreateRequest_request P r c = Inr req' \<longrightarrow>
         RawQuery (URL req') = [] \<and> \<not> ForceQuery (URL req')) \<and>
      (CHR ''#'' \<notin> set (Role r) \<and> CHR ''%'' \<notin> set (Role r) \<and> \<not> stringContainsCTLByte (Role r) \<longrightarrow>
         (\<exists>q. RoleCreateRequest_request P r c = Inr q \<and> RawQuery (URL q) = [] \<and> \<not> ForceQuery (URL q)) \<and>
         (\<exists>q. RoleMappingCreateRequest_request P r c = Inr q \<and> RawQuery (URL q) = [] \<and>
              \<not> ForceQuery (URL q)))"
      by blast
  qed
  have absent: "url_Query P [] = Map.empty \<longrightarrow>
      (setParams (collectParams P r) (url_Query P []) k = None) = (k \<notin> fst ` set (collectParams P r))"
    by (simp add: setParams_empty_None)
  have k1: "MasterTimeout r = 0 \<longrightarrow> ''master_timeout'' \<notin> fst ` set (collectParams P r)"
    by (simp add: collectParams_key_iff)
  have k2: "ClusterManagerTimeout r = 0 \<longrightarrow> ''cluster_manager_timeout'' \<notin> fst ` set (collectParams P r)"
    by (simp add: collectParams_key_iff)
  have k3: "Timeout r = 0 \<longrightarrow> ''timeout'' \<notin> fst ` set (collectParams P r)"
    by (simp add: collectParams_key_iff)
  have k4: "WaitForActiveShards r = [] \<longrightarrow> ''wait_for_active_shards'' \<notin> fst ` set (collectParams P r)"
    by (simp add: collectParams_key_iff)
  have k5: "\<not> Pretty r \<longrightarrow> ''pretty'' \<notin> fst ` set (collectParams P r)"
    by (simp add: collectParams_key_iff)
  have k6: "\<not> Human r \<longrightarrow> ''human'' \<notin> fst ` set (collectParams P r)"
    by (simp add: collectParams_key_iff)
  have k7: "\<not> ErrorTrace r \<longrightarrow> ''error_trace'' \<notin> fst ` set (collectParams P r)"
    by (simp add: collectParams_key_iff)
  have k8: "FilterPath r = [] \<longrightarrow> ''filter_path'' \<notin> fst ` set (collectParams P r)"
    by (simp add: collectParams_key_iff)
  from zero gen absent k1 k2 k3 k4 k5 k6 k7 k8 show ?thesis by blast
qed

theorem zero_fields_and_id_without_query_give_empty_query_witness:
  "newRequest (examplePackage\<lparr>newRequest := http_NewRequest\<rparr>) = http_NewRequest \<and>
   CHR ''?'' \<notin> set (Role (zeroRequest ''readall'')) \<and>
   MasterTimeout (zeroRequest ''readall'') = 0 \<and> ClusterManagerTimeout (zeroRequest ''readall'') = 0 \<and>
   Timeout (zeroRequest ''readall'') = 0 \<and> WaitForActiveShards (zeroRequest ''readall'') = [] \<and>
   \<not> Pretty (zeroRequest ''readall'') \<and> \<not> Human (zeroRequest ''readall'') \<and>
   \<not> ErrorTrace (zeroRequest ''readall'') \<and> FilterPath (zeroRequest ''readall'') = [] \<and>
   CHR ''#'' \<notin> set (Role (zeroRequest ''readall'')) \<and> CHR ''%'' \<notin> set (Role (zeroRequest ''readall'')) \<and>
   \<not> stringContainsCTLByte (Role (zeroRequest ''readall'')) \<and>
   (\<exists>q. RoleCreateRequest_request (examplePackage\<lparr>newRequest := http_NewRequest\<rparr>)
           (zeroRequest ''readall'') None = Inr q \<and>
        RawQuery (URL q) = [] \<and> \<not> ForceQuery (URL q))"
proof -
  let ?P = "examplePackage\<lparr>newRequest := http_NewRequest\<rparr>"
  let ?r = "zeroRequest ''readall''"
  have n: "newRequest ?P = http_NewRequest"
    by simp
  have q: "CHR ''?'' \<notin> set (Role ?r)"
    by (simp add: zeroRequest_def)
  have z: "MasterTimeout ?r = 0 \<and> ClusterManagerTimeout ?r = 0 \<and> Timeout ?r = 0 \<and>
           WaitForActiveShards ?r = [] \<and> \<not> Pretty ?r \<and> \<not> Human ?r \<and> \<not> ErrorTrace ?r \<and> FilterPath ?r = []"
    by (simp add: zeroRequest_def)
  have cl: "CHR ''#'' \<notin> set (Role ?r) \<and> CHR ''%'' \<notin> set (Role ?r) \<and> \<not> stringContainsCTLByte (Role ?r)"
    by (simp add: zeroRequest_def stringContainsCTLByte_def)
  from zero_fields_and_id_without_query_give_empty_query [OF n q, of None] z cl
  have "\<exists>q. RoleCreateRequest_request ?P ?r None = Inr q \<and> RawQuery (URL q) = [] \<and> \<not> ForceQuery (URL q)"
    by blast
  with n q z cl show ?thesis by blast
qed

text \<open>
  C8. For the two create operations: when \<^verbatim>\<open>MasterTimeout\<close> and \<^verbatim>\<open>ClusterManagerTimeout\<close> are
  both non-zero, \<^verbatim>\<open>params\<close> holds both \<^verbatim>\<open>master_timeout\<close> and \<^verbatim>\<open>cluster_manager_timeout\<close>, each with
  \<^verbatim>\<open>formatDuration\<close> of its own field; both are set in the values that \<^verbatim>\<open>Encode\<close> writes into the
  raw query of the request. Each of the two entries depends on its own field only: nothing
  reconciles them.
\<close>

theorem master_and_cluster_manager_timeout_both_sent:
  "(MasterTimeout r \<noteq> 0 \<and> ClusterManagerTimeout r \<noteq> 0 \<longrightarrow>
      (''master_timeout'', formatDuration P (MasterTimeout r)) \<in> set (collectParams P r) \<and>
      (''cluster_manager_timeout'', formatDuration P (ClusterManagerTimeout r)) \<in> set (collectParams P r) \<and>
      setParams (collectParams P r) q ''master_timeout'' = Some [formatDuration P (MasterTimeout r)] \<and>
      setParams (collectParams P r) q ''cluster_manager_timeout'' =
        Some [formatDuration P (ClusterManagerTimeout r)] \<and>
      (newRequest P ''PUT'' (''/_plugins/_security/api/roles/'' @ Role r) (RoleCreateRequest.Body r) = Inr req \<longrightarrow>
         (\<exists>req'. RoleCreateRequest_request P r c = Inr req' \<and>
                 RawQuery (URL req') =
                   Values_Encode P (setParams (collectParams P r) (url_Query P (RawQuery (URL req)))))) \<and>
      (newRequest P ''PUT'' (''/_plugins/_security/api/rolesmapping/'' @ Role r) (RoleCreateRequest.Body r) = Inr req \<longrightarrow>
         (\<exists>req'. RoleMappingCreateRequest_request P r c = Inr req' \<and>
                 RawQuery (URL req') =
                   Values_Encode P (setParams (collectParams P r) (url_Query P (RawQuery (URL req))))))) \<and>
   map_of (collectParams P r) ''master_timeout'' =
     (if MasterTimeout r \<noteq> 0 then Some (formatDuration P (MasterTimeout r)) else None) \<and>
   map_of (collectParams P r) ''cluster_manager_timeout'' =
     (if ClusterManagerTimeout r \<noteq> 0 then Some (formatDuration P (ClusterManagerTimeout r)) else None)"
proof -
  have both: "MasterTimeout r \<noteq> 0 \<and> ClusterManagerTimeout r \<noteq> 0 \<longrightarrow>
      (''master_timeout'', formatDuration P (MasterTimeout r)) \<in> set (collectParams P r) \<and>
      (''cluster_manager_timeout'', formatDuration P (ClusterManagerTimeout r)) \<in> set (collectParams P r) \<and>
      setParams (collectParams P r) q ''master_timeout'' = Some [formatDuration P (MasterTimeout r)] \<and>
      setParams (collectParams P r) q ''cluster_manager_timeout'' =
        Some [formatDuration P (ClusterManagerTimeout r)] \<and>
      (newRequest P ''PUT'' (''/_plugins/_security/api/roles/'' @ Role r) (RoleCreateRequest.Body r) = Inr req \<longrightarrow>
         (\<exists>req'. RoleCreateRequest_request P r c = Inr req' \<and>
                 RawQuery (URL req') =
                   Values_Encode P (setParams (collectParams P r) (url_Query P (RawQuery (URL req)))))) \<and>
      (newRequest P ''PUT'' (''/_plugins/_security/api/rolesmapping/'' @ Role r) (RoleCreateRequest.Body r) = Inr req \<longrightarrow>
         (\<exists>req'. RoleMappingCreateRequest_request P r c = Inr req' \<and>
                 RawQuery (URL req') =
                   Values_Encode P (setParams (collectParams P r) (url_Query P (RawQuery (URL req))))))"
  proof (intro impI)
    assume nz: "MasterTimeout r \<noteq> 0 \<and> ClusterManagerTimeout r \<noteq> 0"
    then have ne: "collectParams P r \<noteq> []"
      by (simp add: collectParams_Nil_iff)
    have m1: "(''master_timeout'', formatDuration P (MasterTimeout r)) \<in> set (collectParams P r)"
      using nz by (simp add: collectParams_def)
    have m2: "(''cluster_manager_timeout'', formatDuration P (ClusterManagerTimeout r)) \<in> set (collectParams P r)"
      using nz by (simp add: collectParams_def)
    have l1: "setParams (collectParams P r) q ''master_timeout'' = Some [formatDuration P (MasterTimeout r)]"
      using nz by (simp add: lookup_master)
    have l2: "setParams (collectParams P r) q ''cluster_manager_timeout'' =
        Some [formatDuration P (ClusterManagerTimeout r)]"
      using nz by (simp add: lookup_cluster)
    have r1: "newRequest P ''PUT'' (''/_plugins/_security/api/roles/'' @ Role r) (RoleCreateRequest.Body r) = Inr req \<longrightarrow>
         (\<exists>req'. RoleCreateRequest_request P r c = Inr req' \<and>
                 RawQuery (URL req') =
                   Values_Encode P (setParams (collectParams P r) (url_Query P (RawQuery (URL req)))))"
      using create_request_RawQuery [of P r req c] ne by auto
    have r2: "newRequest P ''PUT'' (''/_plugins/_security/api/rolesmapping/'' @ Role r) (RoleCreateRequest.Body r) = Inr req \<longrightarrow>
         (\<exists>req'. RoleMappingCreateRequest_request P r c = Inr req' \<and>
                 RawQuery (URL req') =
                   Values_Encode P (setParams (collectParams P r) (url_Query P (RawQuery (URL req)))))"
      using mapping_create_request_RawQuery [of P r req c] ne by auto
    from m1 m2 l1 l2 r1 r2 show "(''master_timeout'', formatDuration P (MasterTimeout r)) \<in> set (collectParams P r) \<and>
      (''cluster_manager_timeout'', formatDuration P (ClusterManagerTimeout r)) \<in> set (collectParams P r) \<and>
      setParams (collectParams P r) q ''master_timeout'' = Some [formatDuration P (MasterTimeout r)] \<and>
      setParams (collectParams P r) q ''cluster_manager_timeout'' =
        Some [formatDuration P (ClusterManagerTimeout r)] \<and>
      (newRequest P ''PUT'' (''/_plugins/_security/api/roles/'' @ Role r) (RoleCreateRequest.Body r) = Inr req \<longrightarrow>
         (\<exists>req'. RoleCreateRequest_request P r c = Inr req' \<and>
                 RawQuery (URL req') =
                   Values_Encode P (setParams (collectParams P r) (url_Query P (RawQuery (URL req)))))) \<and>
      (newRequest P ''PUT'' (''/_plugins/_security/api/rolesmapping/'' @ Role r) (RoleCreateRequest.Body r) = Inr req \<longrightarrow>
         (\<exists>req'. RoleMappingCreateRequest_request P r c = Inr req' \<and>
                 RawQuery (URL req') =
                   Values_Encode P (setParams (collectParams P r) (url_Query P (RawQuery (URL req))))))"
      by blast
  qed
  have i1: "map_of (collectParams P r) ''master_timeout'' =
     (if MasterTimeout r \<noteq> 0 then Some (formatDuration P (MasterTimeout r)) else None)"
    by (simp add: collectParams_def)
  have i2: "map_of (collectParams P r) ''cluster_manager_timeout'' =
     (if ClusterManagerTimeout r \<noteq> 0 then Some (formatDuration P (ClusterManagerTimeout r)) else None)"
    by (simp add: collectParams_def map_add_def)
  from both i1 i2 show ?thesis by blast
qed

theorem master_and_cluster_manager_timeout_both_sent_witness:
  "MasterTimeout (WithClusterManagerTimeout 60000000000 (WithMasterTimeout 30000000000 (zeroRequest ''readall''))) \<noteq> 0 \<and>
   ClusterManagerTimeout (WithClusterManagerTimeout 60000000000 (WithMasterTimeout 30000000000 (zeroRequest ''readall''))) \<noteq> 0 \<and>
   (\<exists>req'. RoleCreateRequest_request examplePackage
             (WithClusterManagerTimeout 60000000000 (WithMasterTimeout 30000000000 (zeroRequest ''readall''))) None =
             Inr req' \<and>
           RawQuery (URL req') = ''cluster_manager_timeout=1m&master_timeout=30s'')"
proof -
  let ?r = "WithClusterManagerTimeout 60000000000 (WithMasterTimeout 30000000000 (zeroRequest ''readall''))"
  let ?req = "\<lparr>Method = ''PUT'', URL = \<lparr>Path = ''/_plugins/_security/api/roles/readall'', RawQuery = [], ForceQuery = False\<rparr>,
          Body = None, Header = [], ctx = None\<rparr>"
  have f: "MasterTimeout ?r = 30000000000" "ClusterManagerTimeout ?r = 60000000000" "Timeout ?r = 0"
    "WaitForActiveShards ?r = []" "\<not> Pretty ?r" "\<not> Human ?r" "\<not> ErrorTrace ?r" "FilterPath ?r = []"
    "Role ?r = ''readall''" "RoleCreateRequest.Body ?r = None"
    by (simp_all add: zeroRequest_def WithClusterManagerTimeout_def WithMasterTimeout_def)
  have nz: "MasterTimeout ?r \<noteq> 0 \<and> ClusterManagerTimeout ?r \<noteq> 0"
    by (simp add: f)
  have n: "newRequest examplePackage ''PUT'' (''/_plugins/_security/api/roles/'' @ Role ?r)
             (RoleCreateRequest.Body ?r) = Inr ?req"
    by (simp add: f examplePackage_def exampleNewRequest_def)
  have enc: "Values_Encode examplePackage
               (setParams (collectParams examplePackage ?r) (url_Query examplePackage (RawQuery (URL ?req)))) =
             ''cluster_manager_timeout=1m&master_timeout=30s''"
    by (simp add: examplePackage_def exampleEncode_def lookup_master lookup_cluster lookup_timeout
        lookup_shards lookup_pretty lookup_human lookup_error_trace lookup_filter_path f
        exampleFormatDuration_def)
  from master_and_cluster_manager_timeout_both_sent [of ?r examplePackage _ ?req None] nz n
  have "\<exists>req'. RoleCreateRequest_request examplePackage ?r None = Inr req' \<and>
          RawQuery (URL req') =
            Values_Encode examplePackage
               (setParams (collectParams examplePackage ?r) (url_Query examplePackage (RawQuery (URL ?req))))"
    by blast
  with enc nz show ?thesis by simp
qed

text \<open>
  C9. \<^verbatim>\<open>WithHeader\<close> with \<^verbatim>\<open>{"X": "1"}\<close> and then \<^verbatim>\<open>WithHeader\<close> with \<^verbatim>\<open>{"X": "2"}\<close>, applied to a
  configuration whose header set is \<^verbatim>\<open>nil\<close> or empty, give the header set \<^verbatim>\<open>X: ["1", "2"]\<close>: the
  second value follows the first and does not replace it (\<^verbatim>\<open>WithHeader\<close> with \<^verbatim>\<open>{"X": "2"}\<close>
  alone gives \<^verbatim>\<open>X: ["2"]\<close>). On any configuration the two values are appended, in this order,
  to what \<^verbatim>\<open>X\<close> had. \<^verbatim>\<open>RoleCreateRequest.Do\<close> hands these headers to a request without body and
  without headers of its own as they are.
\<close>

theorem WithHeader_accumulates_in_order:
  "RoleCreateRequest.Header (WithHeader [(''X'', ''2'')] (WithHeader [(''X'', ''1'')] (zeroRequest role))) =
     Some [(''X'', [''1'', ''2''])] \<and>
   RoleCreateRequest.Header
     (WithHeader [(''X'', ''2'')] (WithHeader [(''X'', ''1'')] (r\<lparr>RoleCreateRequest.Header := Some []\<rparr>))) =
     Some [(''X'', [''1'', ''2''])] \<and>
   Header_lookup
     (entriesOf (RoleCreateRequest.Header (WithHeader [(''X'', ''2'')] (WithHeader [(''X'', ''1'')] r)))) ''X'' =
     Some ((case Header_lookup (entriesOf (RoleCreateRequest.Header r)) ''X'' of None \<Rightarrow> [] | Some vs \<Rightarrow> vs) @
           [''1'', ''2'']) \<and>
   RoleCreateRequest.Header (WithHeader [(''X'', ''2'')] (zeroRequest role)) = Some [(''X'', [''2''])] \<and>
   (newRequest P ''PUT'' (''/_plugins/_security/api/roles/'' @ role) None = Inr req \<and>
    http_Request.Header req = [] \<longrightarrow>
      (\<exists>req'. RoleCreateRequest_request P
                (WithHeader [(''X'', ''2'')] (WithHeader [(''X'', ''1'')] (zeroRequest role))) c = Inr req' \<and>
              http_Request.Header req' = [(''X'', [''1'', ''2''])]))"
proof -
  let ?r = "WithHeader [(''X'', ''2'')] (WithHeader [(''X'', ''1'')] (zeroRequest role))"
  have a: "RoleCreateRequest.Header ?r = Some [(''X'', [''1'', ''2''])]"
    by (simp add: WithHeader_X12 zeroRequest_def entriesOf_def)
  have b: "RoleCreateRequest.Header
     (WithHeader [(''X'', ''2'')] (WithHeader [(''X'', ''1'')] (r\<lparr>RoleCreateRequest.Header := Some []\<rparr>))) =
     Some [(''X'', [''1'', ''2''])]"
    by (simp add: WithHeader_X12 entriesOf_def)
  have c: "Header_lookup
     (entriesOf (RoleCreateRequest.Header (WithHeader [(''X'', ''2'')] (WithHeader [(''X'', ''1'')] r)))) ''X'' =
     Some ((case Header_lookup (entriesOf (RoleCreateRequest.Header r)) ''X'' of None \<Rightarrow> [] | Some vs \<Rightarrow> vs) @
           [''1'', ''2''])"
    by (simp add: WithHeader_X12 Header_lookup_def Header_append_twice_lookup entriesOf_def)
  have d: "RoleCreateRequest.Header (WithHeader [(''X'', ''2'')] (zeroRequest role)) = Some [(''X'', [''2''])]"
    by (simp add: WithHeader_def Header_Add_def canon_X entriesOf_def zeroRequest_def)
  have f: "Role ?r = role" "RoleCreateRequest.Body ?r = None" "collectParams P ?r = []"
    by (simp_all add: WithHeader_def zeroRequest_def collectParams_def)
  have e: "newRequest P ''PUT'' (''/_plugins/_security/api/roles/'' @ role) None = Inr req \<and>
    http_Request.Header req = [] \<longrightarrow>
      (\<exists>req'. RoleCreateRequest_request P ?r c = Inr req' \<and>
              http_Request.Header req' = [(''X'', [''1'', ''2''])])"
    by (simp add: create_requests f encodeParams_Nil setContentType_def mergeHeader_def a entriesOf_def
        Header_bindContext)
  from a b c d e show ?thesis by blast
qed

theorem WithHeader_accumulates_in_order_witness:
  "newRequest examplePackage ''PUT'' (''/_plugins/_security/api/roles/'' @ ''readall'') None =
     Inr \<lparr>Method = ''PUT'', URL = \<lparr>Path = ''/_plugins/_security/api/roles/readall'', RawQuery = [], ForceQuery = False\<rparr>,
          Body = None, Header = [], ctx = None\<rparr> \<and>
   (\<exists>req'. RoleCreateRequest_request examplePackage
             (WithHeader [(''X'', ''2'')] (WithHeader [(''X'', ''1'')] (zeroRequest ''readall''))) None = Inr req' \<and>
           http_Request.Header req' = [(''X'', [''1'', ''2''])])"
proof -
  let ?req = "\<lparr>Method = ''PUT'', URL = \<lparr>Path = ''/_plugins/_security/api/roles/readall'', RawQuery = [], ForceQuery = False\<rparr>,
          Body = None, Header = [], ctx = None\<rparr>"
  have n: "newRequest examplePackage ''PUT'' (''/_plugins/_security/api/roles/'' @ ''readall'') None = Inr ?req"
    by (simp add: examplePackage_def exampleNewRequest_def)
  have h: "http_Request.Header ?req = []"
    by simp
  from WithHeader_accumulates_in_order [of "''readall''" _ examplePackage ?req None] n h
  have "\<exists>req'. RoleCreateRequest_request examplePackage
             (WithHeader [(''X'', ''2'')] (WithHeader [(''X'', ''1'')] (zeroRequest ''readall''))) None = Inr req' \<and>
           http_Request.Header req' = [(''X'', [''1'', ''2''])]"
    by blast
  with n show ?thesis by blast
qed

text \<open>
  C3, as the spec states it: for every two options that set the same field, the first then
  the second gives the configuration that the second alone gives. It fails for
  \<^verbatim>\<open>WithHeader\<close>, which adds to the \<^verbatim>\<open>Header\<close> field: on the empty configuration for \<^verbatim>\<open>readall\<close>,
  \<^verbatim>\<open>{"X": "1"}\<close> then \<^verbatim>\<open>{"X": "2"}\<close> is not \<^verbatim>\<open>{"X": "2"}\<close> alone.
\<close>

theorem WithHeader_then_WithHeader_is_not_last_write_wins:
  "WithHeader [(''X'', ''2'')] (WithHeader [(''X'', ''1'')] (zeroRequest ''readall'')) \<noteq>
   WithHeader [(''X'', ''2'')] (zeroRequest ''readall'')"
proof
  assume "WithHeader [(''X'', ''2'')] (WithHeader [(''X'', ''1'')] (zeroRequest ''readall'')) =
          WithHeader [(''X'', ''2'')] (zeroRequest ''readall'')"
  then have "RoleCreateRequest.Header (WithHeader [(''X'', ''2'')] (WithHeader [(''X'', ''1'')] (zeroRequest ''readall''))) =
             RoleCreateRequest.Header (WithHeader [(''X'', ''2'')] (zeroRequest ''readall''))"
    by simp
  then show False
    by (simp add: WithHeader_def Header_Add_def canon_X entriesOf_def zeroRequest_def)
qed

text \<open>
  C3, amended. Options are applied in call order. For each of the ten options that assign
  one field (context, body, the three timeouts, wait-for-active-shards, pretty, human,
  error trace, filter path) and for \<^verbatim>\<open>WithOpaqueID\<close>, the option applied after the same option
  gives the configuration that the later one alone gives; in an endpoint call an earlier
  \<^verbatim>\<open>WithTimeout\<close> right before a later one can be dropped. \<^verbatim>\<open>WithHeader\<close> is not among them: it
  accumulates (C9).
\<close>

theorem scalar_options_last_write_wins:
  "WithContext v (WithContext u r) = WithContext v r \<and>
   WithBody b (WithBody a r) = WithBody b r \<and>
   WithMasterTimeout d (WithMasterTimeout d' r) = WithMasterTimeout d r \<and>
   WithClusterManagerTimeout d (WithClusterManagerTimeout d' r) = WithClusterManagerTimeout d r \<and>
   WithTimeout d (WithTimeout d' r) = WithTimeout d r \<and>
   WithWaitForActiveShards s (WithWaitForActiveShards s' r) = WithWaitForActiveShards s r \<and>
   WithPretty (WithPretty r) = WithPretty r \<and>
   WithHuman (WithHuman r) = WithHuman r \<and>
   WithErrorTrace (WithErrorTrace r) = WithErrorTrace r \<and>
   WithFilterPath p (WithFilterPath p' r) = WithFilterPath p r \<and>
   WithOpaqueID s (WithOpaqueID s' r) = WithOpaqueID s r \<and>
   applyOptions (fs @ [f, g]) r = g (f (applyOptions fs r)) \<and>
   applyOptions (fs @ gs) r = applyOptions gs (applyOptions fs r) \<and>
   newRoleCreateFunc P t role (fs @ [WithTimeout d', WithTimeout d] @ gs) w =
     newRoleCreateFunc P t role (fs @ [WithTimeout d] @ gs) w"
  by (simp add: WithContext_def WithBody_def WithMasterTimeout_def WithClusterManagerTimeout_def
      WithTimeout_def WithWaitForActiveShards_def WithPretty_def WithHuman_def WithErrorTrace_def
      WithFilterPath_def WithOpaqueID_def Header_Set_def Header_assign_twice entriesOf_def
      applyOptions_def newRoleCreateFunc_def)

text \<open>
  C4, as the spec states it: for every operation of both families, a non-nil body gives
  the request the JSON content type. It fails for the delete operations, which never read
  \<^verbatim>\<open>Body\<close>: the role delete for \<^verbatim>\<open>readall\<close> with a body builds a request with no body and no
  header at all.
\<close>

theorem delete_with_body_sets_no_content_type:
  "RoleCreateRequest.Body (WithBody (Some ''{}'') (zeroRequest ''readall'')) \<noteq> None \<and>
   RoleDeleteRequest_request examplePackage (WithBody (Some ''{}'') (zeroRequest ''readall'')) None =
     Inr \<lparr>Method = ''DELETE'', URL = \<lparr>Path = ''/_plugins/_security/api/roles/readall'', RawQuery = [], ForceQuery = False\<rparr>,
          Body = None, Header = [], ctx = None\<rparr> \<and>
   Header_lookup [] (headerContentType examplePackage) = None"
  by (simp add: WithBody_def zeroRequest_def delete_requests examplePackage_def exampleNewRequest_def
      bindContext_def Header_lookup_def)

text \<open>
  C4, amended. For the role create and the role-mapping create, when the body is not \<^verbatim>\<open>nil\<close>,
  whatever its bytes are, the header \<^verbatim>\<open>headerContentType\<close> of the request for the transport
  starts with \<^verbatim>\<open>headerContentTypeJSON\<close>; the values that the caller's headers hold under keys
  whose canonical form is \<^verbatim>\<open>headerContentType\<close> follow it, in order, and nothing else does.
\<close>

theorem create_with_body_puts_JSON_content_type_first:
  "RoleCreateRequest.Body r \<noteq> None \<longrightarrow>
     (newRequest P ''PUT'' (''/_plugins/_security/api/roles/'' @ Role r) (RoleCreateRequest.Body r) = Inr req \<longrightarrow>
        (\<exists>req'. RoleCreateRequest_request P r c = Inr req' \<and>
                Header_lookup (http_Request.Header req') (headerContentType P) =
                  Some (headerContentTypeJSON P @
                        concat (map snd (filter (\<lambda>(k, vv). CanonicalMIMEHeaderKey k = headerContentType P)
                                           (entriesOf (RoleCreateRequest.Header r))))))) \<and>
     (newRequest P ''PUT'' (''/_plugins/_security/api/rolesmapping/'' @ Role r) (RoleCreateRequest.Body r) = Inr req \<longrightarrow>
        (\<exists>req'. RoleMappingCreateRequest_request P r c = Inr req' \<and>
                Header_lookup (http_Request.Header req') (headerContentType P) =
                  Some (headerContentTypeJSON P @
                        concat (map snd (filter (\<lambda>(k, vv). CanonicalMIMEHeaderKey k = headerContentType P)
                                           (entriesOf (RoleCreateRequest.Header r)))))))"
  by (simp add: create_requests content_type_of_decorated)

theorem create_with_body_puts_JSON_content_type_first_witness:
  "RoleCreateRequest.Body (WithBody (Some ''not json'') (zeroRequest ''readall'')) \<noteq> None \<and>
   newRequest examplePackage ''PUT''
     (''/_plugins/_security/api/roles/'' @ Role (WithBody (Some ''not json'') (zeroRequest ''readall'')))
     (RoleCreateRequest.Body (WithBody (Some ''not json'') (zeroRequest ''readall''))) =
     Inr \<lparr>Method = ''PUT'', URL = \<lparr>Path = ''/_plugins/_security/api/roles/readall'', RawQuery = [], ForceQuery = False\<rparr>,
          Body = Some ''not json'', Header = [], ctx = None\<rparr> \<and>
   (\<exists>req'. RoleCreateRequest_request examplePackage (WithBody (Some ''not json'') (zeroRequest ''readall'')) None =
             Inr req' \<and>
           Header_lookup (http_Request.Header req') ''Content-Type'' = Some [''application/json''])"
proof -
  let ?r = "WithBody (Some ''not json'') (zeroRequest ''readall'')"
  let ?req = "\<lparr>Method = ''PUT'', URL = \<lparr>Path = ''/_plugins/_security/api/roles/readall'', RawQuery = [], ForceQuery = False\<rparr>,
          Body = Some ''not json'', Header = [], ctx = None\<rparr>"
  have b: "RoleCreateRequest.Body ?r \<noteq> None"
    by (simp add: WithBody_def)
  have n: "newRequest examplePackage ''PUT'' (''/_plugins/_security/api/roles/'' @ Role ?r)
             (RoleCreateRequest.Body ?r) = Inr ?req"
    by (simp add: WithBody_def zeroRequest_def examplePackage_def exampleNewRequest_def)
  have h: "entriesOf (RoleCreateRequest.Header ?r) = []"
    by (simp add: WithBody_def zeroRequest_def entriesOf_def)
  have p: "headerContentType examplePackage = ''Content-Type''"
          "headerContentTypeJSON examplePackage = [''application/json'']"
    by (simp_all add: examplePackage_def)
  from create_with_body_puts_JSON_content_type_first [of ?r examplePackage ?req None] b n
  have "\<exists>req'. RoleCreateRequest_request examplePackage ?r None = Inr req' \<and>
          Header_lookup (http_Request.Header req') (headerContentType examplePackage) =
            Some (headerContentTypeJSON examplePackage @
                  concat (map snd (filter (\<lambda>(k, vv). CanonicalMIMEHeaderKey k = headerContentType examplePackage)
                                     (entriesOf (RoleCreateRequest.Header ?r)))))"
    by blast
  then have "\<exists>req'. RoleCreateRequest_request examplePackage ?r None = Inr req' \<and>
          Header_lookup (http_Request.Header req') ''Content-Type'' = Some [''application/json'']"
    by (simp add: h p)
  with b n show ?thesis by blast
qed

end
